theory Spec2Isabelle
  imports Complex_Main
begin

section \<open>Data model\<close>

text \<open>
  The documents of the store, as the mongoose schemas declare them, restricted to the
  fields the route handlers below read or write. An ObjectId is a natural number. A
  reference to another document is an id, a missing reference is \<open>None\<close>. JavaScript
  numbers are modelled exactly: capacities, which count beds, as integers, rating
  averages and money as rationals (rounding of IEEE doubles is outside the model).
  Timestamps are left out, and so are the notifications by SMS and socket, which write
  nothing to the store.
\<close>

subsection \<open>Values of a request body\<close>

text \<open>
  The handlers read \<open>rating\<close> and \<open>amount\<close> from the JSON body as they come, with no
  validator in front, so these two are JSON values: absent, null, a boolean, a number,
  a string, or an array or object, which is given by the string that JavaScript's
  \<open>ToPrimitive\<close> turns it into. A number the language computes is finite, infinite or
  \<open>NaN\<close>. The two conversions between numbers and strings, \<open>StringToNumber\<close> and
  \<open>Number::toString\<close>, are built into the language; the handlers below take them as
  parameters, as they take the other collaborators.
\<close>

datatype jsnum = Fin rat | PosInfinity | NegInfinity | NaN

datatype json = JUndefined | JNull | JBool bool | JNum rat | JStr string | JObj string

datatype jsprim = PNumber jsnum | PString string

fun ToBoolean :: "json \<Rightarrow> bool" where
  "ToBoolean JUndefined = False"
| "ToBoolean JNull = False"
| "ToBoolean (JBool b) = b"
| "ToBoolean (JNum r) = (r \<noteq> 0)"
| "ToBoolean (JStr s) = (s \<noteq> [])"
| "ToBoolean (JObj p) = True"

fun ToNumber :: "(string \<Rightarrow> jsnum) \<Rightarrow> json \<Rightarrow> jsnum" where
  "ToNumber StringToNumber JUndefined = NaN"
| "ToNumber StringToNumber JNull = Fin 0"
| "ToNumber StringToNumber (JBool b) = Fin (if b then 1 else 0)"
| "ToNumber StringToNumber (JNum r) = Fin r"
| "ToNumber StringToNumber (JStr s) = StringToNumber s"
| "ToNumber StringToNumber (JObj p) = StringToNumber p"

text \<open>
  The comparisons \<open>x < y\<close> and \<open>x <= y\<close> of two numbers: both are false when one side
  is \<open>NaN\<close>.
\<close>

fun js_less :: "jsnum \<Rightarrow> jsnum \<Rightarrow> bool" where
  "js_less NaN y = False"
| "js_less x NaN = False"
| "js_less (Fin x) (Fin y) = (x < y)"
| "js_less (Fin x) PosInfinity = True"
| "js_less (Fin x) NegInfinity = False"
| "js_less PosInfinity y = False"
| "js_less NegInfinity NegInfinity = False"
| "js_less NegInfinity y = True"

definition js_less_eq :: "jsnum \<Rightarrow> jsnum \<Rightarrow> bool" where
  "js_less_eq x y = (if x = NaN then False else if y = NaN then False else \<not> js_less y x)"

text \<open>
  \<open>n + v\<close> for a finite number \<open>n\<close> and a body value \<open>v\<close>: a string, and an array or
  object, are concatenated to the digits of \<open>n\<close>; everything else is added as a
  number. \<open>x / k\<close> for a positive finite \<open>k\<close> reads a string as a number first.
\<close>

fun js_add :: "(rat \<Rightarrow> string) \<Rightarrow> rat \<Rightarrow> json \<Rightarrow> jsprim" where
  "js_add NumberToString n JUndefined = PNumber NaN"
| "js_add NumberToString n JNull = PNumber (Fin n)"
| "js_add NumberToString n (JBool b) = PNumber (Fin (n + (if b then 1 else 0)))"
| "js_add NumberToString n (JNum r) = PNumber (Fin (n + r))"
| "js_add NumberToString n (JStr s) = PString (NumberToString n @ s)"
| "js_add NumberToString n (JObj p) = PString (NumberToString n @ p)"

fun divide_by :: "jsnum \<Rightarrow> rat \<Rightarrow> jsnum" where
  "divide_by (Fin x) k = Fin (x / k)"
| "divide_by PosInfinity k = PosInfinity"
| "divide_by NegInfinity k = NegInfinity"
| "divide_by NaN k = NaN"

fun js_divide :: "(string \<Rightarrow> jsnum) \<Rightarrow> jsprim \<Rightarrow> rat \<Rightarrow> jsnum" where
  "js_divide StringToNumber (PNumber x) k = divide_by x k"
| "js_divide StringToNumber (PString s) k = divide_by (StringToNumber s) k"

text \<open>
  What mongoose makes of a body value assigned to a path of type Number: absent and
  null stay as they are, and so does the empty string, as null; a boolean and a string
  are read as numbers; \<open>NaN\<close>, an array and an object are cast errors, which reject
  the save of the document.
\<close>

datatype cast_result = CastError | Cast "jsnum option"

fun castNumber :: "(string \<Rightarrow> jsnum) \<Rightarrow> json \<Rightarrow> cast_result" where
  "castNumber StringToNumber JUndefined = Cast None"
| "castNumber StringToNumber JNull = Cast None"
| "castNumber StringToNumber (JBool b) = Cast (Some (Fin (if b then 1 else 0)))"
| "castNumber StringToNumber (JNum r) = Cast (Some (Fin r))"
| "castNumber StringToNumber (JStr s) =
     (if s = [] then Cast None
      else if StringToNumber s = NaN then CastError
      else Cast (Some (StringToNumber s)))"
| "castNumber StringToNumber (JObj p) = CastError"

subsection \<open>Documents\<close>

type_synonym oid = nat

datatype role = User | Driver | Admin | HospitalAdmin

record user =
  user_name :: string
  user_phone :: string
  user_role :: role

datatype emergency_status =
  Pending | Assigned | EnRoute | ArrivedAtPatient | Transporting
  | ArrivedAtHospital | Completed | Cancelled

datatype ambulance_status = Available | Busy | Maintenance | Offline

datatype hospital_status = Active | Inactive | UnderMaintenance

datatype payment_status =
  PaymentPending | PaymentProcessing | PaymentCompleted | PaymentRefunded
  | PaymentFailed | PaymentCancelled

record route_info =
  distance :: string
  duration :: string
  polyline :: string

text \<open>
  What \<open>calculateRoute\<close> returns: the leg's distance and duration, and as polyline the
  route's \<open>overview_polyline\<close>, which the Directions API gives as an object holding the
  encoded points.
\<close>

record overview_polyline =
  points :: string

record route_result =
  rr_distance :: string
  rr_duration :: string
  rr_polyline :: overview_polyline

record timeline_entry =
  tl_status :: string
  tl_notes :: string

record feedback_info =
  fb_rating :: "rat option"
  fb_comment :: "string option"

record emergency =
  patient :: oid
  requestedBy :: oid
  status :: emergency_status
  ambulance :: "oid option"
  hospital :: "oid option"
  route :: "route_info option"
  timeline :: "timeline_entry list"
  feedback :: "feedback_info option"

record ambulance_doc =
  registrationNumber :: string
  driver :: "oid option"
  amb_status :: ambulance_status
  activeEmergency :: "oid option"

record hospital_doc =
  hospital_name :: string
  administrators :: "oid list"
  capacity_total :: int
  capacity_available :: int
  rating_average :: rat
  rating_count :: nat
  hospital_status :: hospital_status

record refund_info =
  refund_amount :: "jsnum option"
  refund_reason :: string
  refund_status :: string

record payment =
  amount :: rat
  pay_status :: payment_status
  refund :: "refund_info option"

record db =
  users :: "oid \<rightharpoonup> user"
  emergencies :: "oid \<rightharpoonup> emergency"
  ambulances :: "oid \<rightharpoonup> ambulance_doc"
  hospitals :: "oid \<rightharpoonup> hospital_doc"
  payments :: "oid \<rightharpoonup> payment"

text \<open>
  A handler that throws answers with the status code set before the throw and the
  message of the error (the global error handler turns a code still at 200 into 500).
  An error thrown by a library, as a rejected save, carries the library's message, of
  which only the beginning is written here.
\<close>

datatype http_error = HttpError nat string

section \<open>The Emergency model\<close>

text \<open>The strings of the schema's status enum, and the request string parsed back.\<close>

fun status_name :: "emergency_status \<Rightarrow> string" where
  "status_name Pending = ''pending''"
| "status_name Assigned = ''assigned''"
| "status_name EnRoute = ''en_route''"
| "status_name ArrivedAtPatient = ''arrived_at_patient''"
| "status_name Transporting = ''transporting''"
| "status_name ArrivedAtHospital = ''arrived_at_hospital''"
| "status_name Completed = ''completed''"
| "status_name Cancelled = ''cancelled''"

definition validStatuses :: "emergency_status list" where
  "validStatuses =
     [Pending, Assigned, EnRoute, ArrivedAtPatient,
      Transporting, ArrivedAtHospital, Completed, Cancelled]"

definition status_of_string :: "string \<Rightarrow> emergency_status option" where
  "status_of_string s = map_of (map (\<lambda>st. (status_name st, st)) validStatuses) s"

fun statusMap :: "emergency_status \<Rightarrow> string" where
  "statusMap Pending = ''emergency_requested''"
| "statusMap Assigned = ''ambulance_assigned''"
| "statusMap EnRoute = ''ambulance_en_route''"
| "statusMap ArrivedAtPatient = ''ambulance_arrived_at_patient''"
| "statusMap Transporting = ''patient_picked_up''"
| "statusMap ArrivedAtHospital = ''arrived_at_hospital''"
| "statusMap Completed = ''emergency_completed''"
| "statusMap Cancelled = ''emergency_cancelled''"

text \<open>
  \<open>emergencySchema.methods.updateStatus\<close>: sets the status and pushes the mapped
  timeline entry; \<open>notes\<close> defaults to the empty string.
\<close>

definition updateStatus :: "emergency \<Rightarrow> emergency_status \<Rightarrow> string option \<Rightarrow> emergency" where
  "updateStatus e st notes =
     e\<lparr>status := st,
       timeline := timeline e @
         [\<lparr>tl_status = statusMap st,
           tl_notes = (case notes of None \<Rightarrow> [] | Some n \<Rightarrow> n)\<rparr>]\<rparr>"

section \<open>Route handlers of the emergencies router\<close>

text \<open>
  Every handler takes the store, the id the bearer token decodes to, and the request's
  parameters; it returns the response (an error or the success body) together with the
  store as the handler leaves it. Writes to the store are assumed to succeed.
\<close>

definition populated_driver :: "db \<Rightarrow> ambulance_doc \<Rightarrow> user option" where
  "populated_driver d a = (case driver a of None \<Rightarrow> None | Some u \<Rightarrow> users d u)"

definition isHospitalAdmin :: "db \<Rightarrow> oid \<Rightarrow> user \<Rightarrow> oid option \<Rightarrow> bool" where
  "isHospitalAdmin d uid u hospitalId =
     (user_role u = HospitalAdmin \<and>
      (case hospitalId of None \<Rightarrow> False
       | Some hid \<Rightarrow>
           (case hospitals d hid of None \<Rightarrow> False
            | Some h \<Rightarrow> uid \<in> set (administrators h))))"

record assign_response =
  ar_status :: emergency_status
  ar_route :: "route_info option"
  ar_ambulance :: oid
  ar_hospital :: "oid option"

text \<open>
  The writes of \<open>PUT /api/emergencies/:id/assign\<close>, in the order of the source: the
  emergency, then the ambulance, then the hospital when one was given.
\<close>

definition assign_writes ::
  "db \<Rightarrow> user \<Rightarrow> oid \<Rightarrow> emergency \<Rightarrow> oid \<Rightarrow> ambulance_doc \<Rightarrow> oid option \<Rightarrow> db" where
  "assign_writes d u eid e aid a hospitalId =
     (let e1 = e\<lparr>ambulance := Some aid, status := Assigned\<rparr>;
          e2 = (case hospitalId of None \<Rightarrow> e1 | Some hid \<Rightarrow> e1\<lparr>hospital := Some hid\<rparr>);
          e4 = e2\<lparr>timeline := timeline e2 @
                 [\<lparr>tl_status = ''ambulance_assigned'',
                   tl_notes = ''Ambulance '' @ registrationNumber a @
                              '' assigned by '' @ user_name u\<rparr>]\<rparr>;
          d1 = d\<lparr>emergencies := (emergencies d)(eid \<mapsto> e4)\<rparr>;
          d2 = d1\<lparr>ambulances := (ambulances d1)
                 (aid \<mapsto> a\<lparr>amb_status := Busy, activeEmergency := Some eid\<rparr>)\<rparr>
      in (case hospitalId of None \<Rightarrow> d2
          | Some hid \<Rightarrow>
              (case hospitals d hid of None \<Rightarrow> d2
               | Some h \<Rightarrow>
                   d2\<lparr>hospitals := (hospitals d2)
                     (hid \<mapsto> h\<lparr>capacity_available :=
                                 max 0 (capacity_available h - 1)\<rparr>)\<rparr>)))"

text \<open>
  The first write is \<open>emergency.save()\<close>. When \<open>calculateRoute\<close> has returned, the
  handler has set \<open>emergency.route\<close> to the distance, the duration and the polyline of
  the result; the polyline is an object and the schema's \<open>route.polyline\<close> is a String,
  to which mongoose casts no plain object: the save is rejected, the handler throws with
  the code still at 200, and nothing has been written. When \<open>calculateRoute\<close> has
  thrown, the route is left as it was and the three writes go through.
\<close>

definition assign_save ::
  "db \<Rightarrow> user \<Rightarrow> oid \<Rightarrow> emergency \<Rightarrow> oid \<Rightarrow> ambulance_doc \<Rightarrow> oid option
     \<Rightarrow> route_result option \<Rightarrow> (http_error + assign_response) \<times> db" where
  "assign_save d u eid e aid a hospitalId routeResult =
     (case routeResult of
        Some r \<Rightarrow>
          (Inl (HttpError 500
                 ''Emergency validation failed: route.polyline: Cast to string failed''), d)
      | None \<Rightarrow>
          (Inr \<lparr>ar_status = Assigned, ar_route = route e,
                ar_ambulance = aid, ar_hospital = hospitalId\<rparr>,
           assign_writes d u eid e aid a hospitalId))"

text \<open>
  \<open>PUT /api/emergencies/:id/assign\<close>. \<open>routeResult\<close> is what \<open>calculateRoute\<close>
  returned, \<open>None\<close> when it threw (the handler catches that and goes on).
\<close>

definition assign ::
  "db \<Rightarrow> oid \<Rightarrow> oid \<Rightarrow> oid option \<Rightarrow> oid option \<Rightarrow> route_result option
     \<Rightarrow> (http_error + assign_response) \<times> db" where
  "assign d uid eid ambulanceId hospitalId routeResult =
     (case users d uid of
        None \<Rightarrow> (Inl (HttpError 401 ''Not authorized, user not found''), d)
      | Some u \<Rightarrow>
     (case ambulanceId of
        None \<Rightarrow> (Inl (HttpError 400 ''Ambulance ID is required''), d)
      | Some aid \<Rightarrow>
     (case emergencies d eid of
        None \<Rightarrow> (Inl (HttpError 404 ''Emergency not found''), d)
      | Some e \<Rightarrow>
     if \<not> (user_role u = Admin) \<and> \<not> isHospitalAdmin d uid u hospitalId
     then (Inl (HttpError 403 ''Not authorized to assign ambulance''), d)
     else
     (case ambulances d aid of
        None \<Rightarrow> (Inl (HttpError 404 ''Ambulance not found''), d)
      | Some a \<Rightarrow>
     if amb_status a \<noteq> Available
     then (Inl (HttpError 400 ''Ambulance is not available''), d)
     else if populated_driver d a = None
     then (Inl (HttpError 400 ''Ambulance has no assigned driver''), d)
     else
     (case hospitalId of
        None \<Rightarrow> assign_save d u eid e aid a hospitalId routeResult
      | Some hid \<Rightarrow>
     (case hospitals d hid of
        None \<Rightarrow> (Inl (HttpError 404 ''Hospital not found''), d)
      | Some h \<Rightarrow>
     if capacity_available h \<le> 0
     then (Inl (HttpError 400 ''Hospital has no available emergency capacity''), d)
     else assign_save d u eid e aid a hospitalId routeResult))))))"

text \<open>
  \<open>PUT /api/emergencies/:id/status\<close>. First the caller's relation to the emergency:
  the driver is the user the emergency's ambulance names as its driver.
\<close>

definition isDriver :: "db \<Rightarrow> oid \<Rightarrow> emergency \<Rightarrow> bool" where
  "isDriver d uid e =
     (case ambulance e of None \<Rightarrow> False
      | Some aid \<Rightarrow>
          (case ambulances d aid of None \<Rightarrow> False
           | Some a \<Rightarrow> driver a = Some uid))"

text \<open>
  The authorization block: cancelling is for the admin, the patient or the requester,
  and not on a completed emergency; the five driving statuses are for the admin or the
  driver. The statuses \<open>pending\<close> and \<open>assigned\<close> fall through both branches.
\<close>

definition status_authorization ::
  "db \<Rightarrow> oid \<Rightarrow> user \<Rightarrow> emergency \<Rightarrow> emergency_status \<Rightarrow> http_error option" where
  "status_authorization d uid u e st =
     (let isAdmin = (user_role u = Admin);
          isPatient = (patient e = uid);
          isRequester = (requestedBy e = uid)
      in if st = Cancelled then
           (if \<not> isAdmin \<and> \<not> isPatient \<and> \<not> isRequester
            then Some (HttpError 403 ''Not authorized to cancel this emergency'')
            else if status e = Completed
            then Some (HttpError 400 ''Cannot cancel a completed emergency'')
            else None)
         else if st \<in> set [EnRoute, ArrivedAtPatient, Transporting, ArrivedAtHospital, Completed]
         then
           (if \<not> isAdmin \<and> \<not> isDriver d uid e
            then Some (HttpError 403 ''Not authorized to update this emergency status'')
            else None)
         else None)"

text \<open>The status-specific validation: five checks of the current status, in order.\<close>

definition status_validation :: "emergency \<Rightarrow> emergency_status \<Rightarrow> http_error option" where
  "status_validation e st =
     (if st = EnRoute \<and> status e \<noteq> Assigned
      then Some (HttpError 400 ''Emergency must be assigned before going en route'')
      else if st = ArrivedAtPatient \<and> status e \<notin> set [Assigned, EnRoute]
      then Some (HttpError 400 ''Ambulance must be en route before arriving at patient'')
      else if st = Transporting \<and> status e \<notin> set [ArrivedAtPatient]
      then Some (HttpError 400 ''Ambulance must arrive at patient before transporting'')
      else if st = ArrivedAtHospital \<and> status e \<notin> set [Transporting]
      then Some (HttpError 400 ''Patient must be in transport before arriving at hospital'')
      else if st = Completed \<and> status e \<notin> set [ArrivedAtHospital]
      then Some (HttpError 400 ''Emergency must arrive at hospital before completion'')
      else None)"

text \<open>
  The writes: the emergency through \<open>updateStatus\<close>; on \<open>completed\<close> or
  \<open>cancelled\<close> the emergency's ambulance is freed; on \<open>completed\<close> the emergency's
  hospital gets one unit of capacity back, capped at the total.
\<close>

definition free_ambulance :: "db \<Rightarrow> emergency \<Rightarrow> db" where
  "free_ambulance d e =
     (case ambulance e of None \<Rightarrow> d
      | Some aid \<Rightarrow>
          (case ambulances d aid of None \<Rightarrow> d
           | Some a \<Rightarrow>
               d\<lparr>ambulances := (ambulances d)
                 (aid \<mapsto> a\<lparr>amb_status := Available, activeEmergency := None\<rparr>)\<rparr>))"

definition restore_capacity :: "db \<Rightarrow> emergency \<Rightarrow> db" where
  "restore_capacity d e =
     (case hospital e of None \<Rightarrow> d
      | Some hid \<Rightarrow>
          (case hospitals d hid of None \<Rightarrow> d
           | Some h \<Rightarrow>
               d\<lparr>hospitals := (hospitals d)
                 (hid \<mapsto> h\<lparr>capacity_available :=
                             min (capacity_total h) (capacity_available h + 1)\<rparr>)\<rparr>))"

definition status_writes ::
  "db \<Rightarrow> oid \<Rightarrow> emergency \<Rightarrow> emergency_status \<Rightarrow> string option \<Rightarrow> db" where
  "status_writes d eid e st notes =
     (let e1 = updateStatus e st notes;
          d1 = d\<lparr>emergencies := (emergencies d)(eid \<mapsto> e1)\<rparr>
      in if st = Completed \<or> st = Cancelled then
           (let d2 = free_ambulance d1 e1
            in if st = Completed then restore_capacity d2 e1 else d2)
         else d1)"

record status_response =
  sr_status :: emergency_status
  sr_timeline :: "timeline_entry list"

definition update_status ::
  "db \<Rightarrow> oid \<Rightarrow> oid \<Rightarrow> string option \<Rightarrow> string option
     \<Rightarrow> (http_error + status_response) \<times> db" where
  "update_status d uid eid status_req notes =
     (case users d uid of
        None \<Rightarrow> (Inl (HttpError 401 ''Not authorized, user not found''), d)
      | Some u \<Rightarrow>
     (case status_req of
        None \<Rightarrow> (Inl (HttpError 400 ''Status is required''), d)
      | Some s \<Rightarrow>
     if s = [] then (Inl (HttpError 400 ''Status is required''), d)
     else
     (case status_of_string s of
        None \<Rightarrow> (Inl (HttpError 400 ''Invalid status''), d)
      | Some st \<Rightarrow>
     (case emergencies d eid of
        None \<Rightarrow> (Inl (HttpError 404 ''Emergency not found''), d)
      | Some e \<Rightarrow>
     (case users d (patient e) of
        None \<Rightarrow>
          (Inl (HttpError 500 ''Cannot read properties of null (reading '_id')''), d)
      | Some p \<Rightarrow>
     (case status_authorization d uid u e st of
        Some err \<Rightarrow> (Inl err, d)
      | None \<Rightarrow>
     (case status_validation e st of
        Some err \<Rightarrow> (Inl err, d)
      | None \<Rightarrow>
          (Inr \<lparr>sr_status = st,
                sr_timeline = timeline (updateStatus e st notes)\<rparr>,
           status_writes d eid e st notes))))))))"

text \<open>
  \<open>POST /api/emergencies/:id/feedback\<close>. The rating is checked as it comes from the
  body: \<open>!rating || rating < 1 || rating > 5\<close>. The emergency is saved with the rating
  as mongoose casts it, under the schema's validators (at least 1, at most 5). Then the
  hospital that the emergency names, when it is in the store, gets its running average
  from \<open>(average * count + rating) / (count + 1)\<close>, in which \<open>rating\<close> is again the
  value of the body, and is saved under the validators of \<open>rating.average\<close> (a number,
  at least 0, at most 5); when that save is rejected the emergency has been written
  already.
\<close>

definition rating_to_store :: "jsnum option \<Rightarrow> (rat option) option" where
  "rating_to_store v =
     (case v of
        None \<Rightarrow> Some None
      | Some (Fin r) \<Rightarrow> if r < 1 then None else if 5 < r then None else Some (Some r)
      | Some PosInfinity \<Rightarrow> None
      | Some NegInfinity \<Rightarrow> None
      | Some NaN \<Rightarrow> None)"

definition feedback_hospital ::
  "(string \<Rightarrow> jsnum) \<Rightarrow> (rat \<Rightarrow> string) \<Rightarrow> db \<Rightarrow> emergency \<Rightarrow> json \<Rightarrow> feedback_info
     \<Rightarrow> (http_error + feedback_info) \<times> db" where
  "feedback_hospital StringToNumber NumberToString d1 e rating fb =
     (case hospital e of None \<Rightarrow> (Inr fb, d1)
      | Some hid \<Rightarrow>
          (case hospitals d1 hid of None \<Rightarrow> (Inr fb, d1)
           | Some h \<Rightarrow>
               (case js_divide StringToNumber
                       (js_add NumberToString
                          (rating_average h * of_nat (rating_count h)) rating)
                       (of_nat (rating_count h + 1)) of
                  Fin newAvg \<Rightarrow>
                    if newAvg < 0 then
                      (Inl (HttpError 500 ''Hospital validation failed: rating.average''), d1)
                    else if 5 < newAvg then
                      (Inl (HttpError 500 ''Hospital validation failed: rating.average''), d1)
                    else
                      (Inr fb,
                       d1\<lparr>hospitals := (hospitals d1)
                         (hid \<mapsto> h\<lparr>rating_average := newAvg,
                                   rating_count := rating_count h + 1\<rparr>)\<rparr>)
                | PosInfinity \<Rightarrow>
                    (Inl (HttpError 500 ''Hospital validation failed: rating.average''), d1)
                | NegInfinity \<Rightarrow>
                    (Inl (HttpError 500 ''Hospital validation failed: rating.average''), d1)
                | NaN \<Rightarrow>
                    (Inl (HttpError 500 ''Hospital validation failed: rating.average''), d1))))"

definition add_feedback ::
  "(string \<Rightarrow> jsnum) \<Rightarrow> (rat \<Rightarrow> string) \<Rightarrow> db \<Rightarrow> oid \<Rightarrow> oid \<Rightarrow> json \<Rightarrow> string option
     \<Rightarrow> (http_error + feedback_info) \<times> db" where
  "add_feedback StringToNumber NumberToString d uid eid rating comment =
     (case users d uid of
        None \<Rightarrow> (Inl (HttpError 401 ''Not authorized, user not found''), d)
      | Some u \<Rightarrow>
     if ToBoolean rating = False
     then (Inl (HttpError 400 ''Rating is required and must be between 1 and 5''), d)
     else if js_less (ToNumber StringToNumber rating) (Fin 1)
     then (Inl (HttpError 400 ''Rating is required and must be between 1 and 5''), d)
     else if js_less (Fin 5) (ToNumber StringToNumber rating)
     then (Inl (HttpError 400 ''Rating is required and must be between 1 and 5''), d)
     else
     (case emergencies d eid of
        None \<Rightarrow> (Inl (HttpError 404 ''Emergency not found''), d)
      | Some e \<Rightarrow>
     if patient e \<noteq> uid \<and> requestedBy e \<noteq> uid
     then (Inl (HttpError 403 ''Not authorized to add feedback to this emergency''), d)
     else if status e \<noteq> Completed
     then (Inl (HttpError 400 ''Can only add feedback to completed emergencies''), d)
     else
     (case castNumber StringToNumber rating of
        CastError \<Rightarrow>
          (Inl (HttpError 500 ''Emergency validation failed: feedback.rating''), d)
      | Cast v \<Rightarrow>
     (case rating_to_store v of
        None \<Rightarrow>
          (Inl (HttpError 500 ''Emergency validation failed: feedback.rating''), d)
      | Some stored \<Rightarrow>
          feedback_hospital StringToNumber NumberToString
            (d\<lparr>emergencies := (emergencies d)
                 (eid \<mapsto> e\<lparr>feedback := Some \<lparr>fb_rating = stored, fb_comment = comment\<rparr>\<rparr>)\<rparr>)
            e rating \<lparr>fb_rating = stored, fb_comment = comment\<rparr>))))"

section \<open>Refunds\<close>

text \<open>
  \<open>POST /api/payments/:id/refund\<close>, behind the \<open>protect\<close> and \<open>admin\<close>
  middlewares. The amount is checked as it comes from the body:
  \<open>!amount || amount <= 0 || amount > payment.amount\<close>. The refund holds the amount as
  mongoose casts it; the new status compares the value of the body with the payment's
  amount by \<open>===\<close>, which holds of an equal number only.
\<close>

definition refunded :: "payment \<Rightarrow> json \<Rightarrow> jsnum option \<Rightarrow> string option \<Rightarrow> payment" where
  "refunded p amount_req stored reason =
     p\<lparr>refund := Some \<lparr>refund_amount = stored,
                        refund_reason = (case reason of None \<Rightarrow> ''Customer request''
                                         | Some r \<Rightarrow> if r = [] then ''Customer request'' else r),
                        refund_status = ''completed''\<rparr>,
       pay_status := (if amount_req = JNum (amount p) then PaymentRefunded
                      else PaymentCompleted)\<rparr>"

definition process_refund ::
  "(string \<Rightarrow> jsnum) \<Rightarrow> db \<Rightarrow> oid \<Rightarrow> oid \<Rightarrow> json \<Rightarrow> string option
     \<Rightarrow> (http_error + payment) \<times> db" where
  "process_refund StringToNumber d uid pid amount_req reason =
     (case users d uid of
        None \<Rightarrow> (Inl (HttpError 401 ''Not authorized, user not found''), d)
      | Some u \<Rightarrow>
     if user_role u \<noteq> Admin
     then (Inl (HttpError 403 ''Not authorized as an admin''), d)
     else
     (case payments d pid of
        None \<Rightarrow> (Inl (HttpError 404 ''Payment not found''), d)
      | Some p \<Rightarrow>
     if pay_status p \<noteq> PaymentCompleted
     then (Inl (HttpError 400 ''Only completed payments can be refunded''), d)
     else if ToBoolean amount_req = False
     then (Inl (HttpError 400 ''Invalid refund amount''), d)
     else if js_less_eq (ToNumber StringToNumber amount_req) (Fin 0)
     then (Inl (HttpError 400 ''Invalid refund amount''), d)
     else if js_less (Fin (amount p)) (ToNumber StringToNumber amount_req)
     then (Inl (HttpError 400 ''Invalid refund amount''), d)
     else
     (case castNumber StringToNumber amount_req of
        CastError \<Rightarrow>
          (Inl (HttpError 500 ''Payment validation failed: refund.amount''), d)
      | Cast stored \<Rightarrow>
          (Inr (refunded p amount_req stored reason),
           d\<lparr>payments := (payments d)(pid \<mapsto> refunded p amount_req stored reason)\<rparr>))))"

section \<open>Nearby hospitals\<close>

text \<open>
  The handler of \<open>GET /api/hospitals/nearby\<close>. The collaborators are parameters:
  \<open>toLowerCase\<close> is the method of JavaScript strings, \<open>dbHospitals\<close> is what
  \<open>Hospital.findNearest\<close> returns for the request (the same list on the second call,
  in the catch block), \<open>googleHospitals\<close> is what \<open>getNearbyHospitals\<close> returns,
  \<open>Inl\<close> with the message when it throws. \<open>limit\<close> is the parsed query parameter, 5
  when absent. An entry \<open>FromGoogle g\<close> of the answer stands for the object the handler
  builds from the place \<open>g\<close>, with source \<open>google\<close>.
\<close>

record nearby_hospital =
  nh_name :: string
  nh_phone :: string

record google_place =
  gp_name :: string
  gp_vicinity :: string
  gp_place_id :: string

datatype nearby_entry = FromDatabase nearby_hospital | FromGoogle google_place

text \<open>\<open>Array.prototype.slice(0, n)\<close>: a negative end counts from the end of the array.\<close>

definition slice0 :: "'a list \<Rightarrow> int \<Rightarrow> 'a list" where
  "slice0 xs n =
     (if 0 \<le> n then take (nat n) xs
      else take (nat (int (length xs) + n)) xs)"

record nearby_response =
  nr_source :: string
  nr_count :: nat
  nr_data :: "nearby_entry list"
  nr_error :: "string option"

definition nearby ::
  "(string \<Rightarrow> string) \<Rightarrow> string option \<Rightarrow> string option \<Rightarrow> int option
     \<Rightarrow> nearby_hospital list \<Rightarrow> string + google_place list
     \<Rightarrow> http_error + nearby_response" where
  "nearby toLowerCase lat lng limit_req dbHospitals googleHospitals =
     (if lat = None \<or> lat = Some [] \<or> lng = None \<or> lng = Some []
      then Inl (HttpError 400 ''Latitude and longitude are required'')
      else
        (let limit = (case limit_req of None \<Rightarrow> 5 | Some n \<Rightarrow> n)
         in if int (length dbHospitals) \<ge> limit
            then Inr \<lparr>nr_source = ''database'', nr_count = length dbHospitals,
                      nr_data = map FromDatabase dbHospitals, nr_error = None\<rparr>
            else
              (case googleHospitals of
                 Inl msg \<Rightarrow>
                   Inr \<lparr>nr_source = ''database'', nr_count = length dbHospitals,
                        nr_data = map FromDatabase dbHospitals, nr_error = Some msg\<rparr>
               | Inr gs \<Rightarrow>
                   (let dbHospitalNames = map (\<lambda>h. toLowerCase (nh_name h)) dbHospitals;
                        filteredGoogleHospitals =
                          map FromGoogle
                            (filter (\<lambda>h. toLowerCase (gp_name h) \<notin> set dbHospitalNames) gs);
                        combinedResults =
                          map FromDatabase dbHospitals @
                          slice0 filteredGoogleHospitals (limit - int (length dbHospitals))
                    in Inr \<lparr>nr_source = ''combined'', nr_count = length combinedResults,
                            nr_data = combinedResults, nr_error = None\<rparr>))))"

section \<open>The hospitals router\<close>

text \<open>
  \<open>GET /api/hospitals/:id\<close>, a public route: no middleware sets \<open>req.user\<close>, so a
  hospital that is not active is answered as not found. \<open>castObjectId\<close> is the cast
  of mongoose from the path parameter to an ObjectId, \<open>None\<close> when the string is none;
  \<open>findById\<close> then throws a cast error.
\<close>

definition get_hospital_by_id ::
  "(string \<Rightarrow> oid option) \<Rightarrow> db \<Rightarrow> string \<Rightarrow> http_error + hospital_doc" where
  "get_hospital_by_id castObjectId d param_id =
     (case castObjectId param_id of
        None \<Rightarrow> Inl (HttpError 500 ''Cast to ObjectId failed'')
      | Some hid \<Rightarrow>
          (case hospitals d hid of
             None \<Rightarrow> Inl (HttpError 404 ''Hospital not found'')
           | Some h \<Rightarrow>
               if hospital_status h \<noteq> Active
               then Inl (HttpError 404 ''Hospital not found'')
               else Inr h))"

text \<open>
  The GET routes of the router in the order of their registration: \<open>/\<close> at line 76 of
  the source, \<open>/:id\<close> at line 130, \<open>/nearby\<close> at line 287. Express runs the first
  route whose path matches; a handler that throws ends the request in the error
  handler. The request path below the mount point is one segment, empty for \<open>/\<close>; the
  parameter \<open>:id\<close> matches every segment that is not empty; \<open>matches_nearby\<close> is the
  matcher Express builds for the literal path. The list handler of \<open>/\<close> is not
  modelled: \<open>list_answer\<close> is what it answers.
\<close>

datatype hospitals_get_handler = ListHospitals | GetHospitalById | GetNearbyHospitals

definition hospitals_get_routes ::
  "(string \<Rightarrow> bool) \<Rightarrow> ((string \<Rightarrow> bool) \<times> hospitals_get_handler) list" where
  "hospitals_get_routes matches_nearby =
     [(\<lambda>seg. seg = [], ListHospitals),
      (\<lambda>seg. seg \<noteq> [], GetHospitalById),
      (matches_nearby, GetNearbyHospitals)]"

fun first_route :: "((string \<Rightarrow> bool) \<times> 'h) list \<Rightarrow> string \<Rightarrow> 'h option" where
  "first_route [] seg = None"
| "first_route ((m, h) # routes) seg = (if m seg then Some h else first_route routes seg)"

datatype hospitals_get_response =
  HospitalList | HospitalFound hospital_doc | NearbyFound nearby_response

definition hospitals_router_get ::
  "(string \<Rightarrow> oid option) \<Rightarrow> (string \<Rightarrow> string) \<Rightarrow> (string \<Rightarrow> bool)
     \<Rightarrow> http_error + hospitals_get_response \<Rightarrow> db \<Rightarrow> string
     \<Rightarrow> string option \<Rightarrow> string option \<Rightarrow> int option
     \<Rightarrow> nearby_hospital list \<Rightarrow> string + google_place list
     \<Rightarrow> http_error + hospitals_get_response" where
  "hospitals_router_get castObjectId toLowerCase matches_nearby list_answer d seg
       lat lng limit_req dbHospitals googleHospitals =
     (case first_route (hospitals_get_routes matches_nearby) seg of
        None \<Rightarrow> Inl (HttpError 404 (''Not Found - /api/hospitals/'' @ seg))
      | Some ListHospitals \<Rightarrow> list_answer
      | Some GetHospitalById \<Rightarrow>
          (case get_hospital_by_id castObjectId d seg of
             Inl err \<Rightarrow> Inl err
           | Inr h \<Rightarrow> Inr (HospitalFound h))
      | Some GetNearbyHospitals \<Rightarrow>
          (case nearby toLowerCase lat lng limit_req dbHospitals googleHospitals of
             Inl err \<Rightarrow> Inl err
           | Inr r \<Rightarrow> Inr (NearbyFound r)))"

section \<open>The specification's transition table\<close>

text \<open>
  The table of section 4.1 of the specification, written from its words, to compare
  the status handler with: \<open>spec_transition cur next\<close> holds when the table allows the
  status \<open>next\<close> from the status \<open>cur\<close>. No row of the table leads to \<open>pending\<close>.
\<close>

fun spec_transition :: "emergency_status \<Rightarrow> emergency_status \<Rightarrow> bool" where
  "spec_transition cur Pending = False"
| "spec_transition cur Assigned = (cur = Pending)"
| "spec_transition cur EnRoute = (cur = Assigned)"
| "spec_transition cur ArrivedAtPatient = (cur = Assigned \<or> cur = EnRoute)"
| "spec_transition cur Transporting = (cur = ArrivedAtPatient)"
| "spec_transition cur ArrivedAtHospital = (cur = Transporting)"
| "spec_transition cur Completed = (cur = ArrivedAtHospital)"
| "spec_transition cur Cancelled = (cur \<noteq> Completed)"

text \<open>
  The responses of the status handler that reject a transition (the specification's
  \<open>InvalidTransition\<close>): code 400 with the message of the failed check.
\<close>

definition invalid_transition_errors :: "http_error list" where
  "invalid_transition_errors =
     [HttpError 400 ''Cannot cancel a completed emergency'',
      HttpError 400 ''Emergency must be assigned before going en route'',
      HttpError 400 ''Ambulance must be en route before arriving at patient'',
      HttpError 400 ''Ambulance must arrive at patient before transporting'',
      HttpError 400 ''Patient must be in transport before arriving at hospital'',
      HttpError 400 ''Emergency must arrive at hospital before completion'']"

section \<open>Sequences of requests\<close>

datatype request =
  AssignReq oid oid "oid option" "oid option" "route_result option"
  | StatusReq oid oid "string option" "string option"

fun handle :: "db \<Rightarrow> request \<Rightarrow> db" where
  "handle d (AssignReq uid eid ambulanceId hospitalId routeResult) =
     snd (assign d uid eid ambulanceId hospitalId routeResult)"
| "handle d (StatusReq uid eid status_req notes) =
     snd (update_status d uid eid status_req notes)"

definition handle_all :: "db \<Rightarrow> request list \<Rightarrow> db" where
  "handle_all d reqs = foldl handle d reqs"


section \<open>A small store to run the handlers on\<close>

definition demo_users :: "oid \<rightharpoonup> user" where
  "demo_users =
     [1 \<mapsto> \<lparr>user_name = ''Asha'', user_phone = ''100'', user_role = Admin\<rparr>,
      2 \<mapsto> \<lparr>user_name = ''Dev'', user_phone = ''200'', user_role = Driver\<rparr>,
      3 \<mapsto> \<lparr>user_name = ''Pia'', user_phone = ''300'', user_role = User\<rparr>,
      4 \<mapsto> \<lparr>user_name = ''Hari'', user_phone = ''400'', user_role = HospitalAdmin\<rparr>]"

definition demo_emergency :: "emergency_status \<Rightarrow> emergency" where
  "demo_emergency st =
     \<lparr>patient = 3, requestedBy = 3, status = st, ambulance = None, hospital = None,
      route = None,
      timeline = [\<lparr>tl_status = ''emergency_requested'',
                   tl_notes = ''Emergency requested by Pia''\<rparr>],
      feedback = None\<rparr>"

definition demo_ambulance :: "ambulance_status \<Rightarrow> ambulance_doc" where
  "demo_ambulance st =
     \<lparr>registrationNumber = ''MH-01'', driver = Some 2, amb_status = st,
      activeEmergency = None\<rparr>"

definition demo_hospital :: hospital_doc where
  "demo_hospital =
     \<lparr>hospital_name = ''City Care'', administrators = [4],
      capacity_total = 5, capacity_available = 1,
      rating_average = 4, rating_count = 2, hospital_status = Active\<rparr>"

definition demo_payment :: payment where
  "demo_payment = \<lparr>amount = 100, pay_status = PaymentCompleted, refund = None\<rparr>"

text \<open>
  The store holds one emergency (id 1) in the given status, one ambulance (id 1) in
  the given status, one hospital (id 1) and one payment (id 1).
\<close>

definition demo_db :: "emergency_status \<Rightarrow> ambulance_status \<Rightarrow> db" where
  "demo_db est ast =
     \<lparr>users = demo_users,
      emergencies = [1 \<mapsto> demo_emergency est],
      ambulances = [1 \<mapsto> demo_ambulance ast],
      hospitals = [1 \<mapsto> demo_hospital],
      payments = [1 \<mapsto> demo_payment]\<rparr>"

text \<open>
  A journey of the emergency: the admin assigns ambulance 1 and hospital 1, then the
  driver reports each stage up to the arrival at the hospital. The stores it passes
  through are written out, to run the later requests on.
\<close>

definition demo_journey :: "request list" where
  "demo_journey =
     [AssignReq 1 1 (Some 1) (Some 1) None,
      StatusReq 2 1 (Some ''en_route'') None,
      StatusReq 2 1 (Some ''arrived_at_patient'') None,
      StatusReq 2 1 (Some ''transporting'') None,
      StatusReq 2 1 (Some ''arrived_at_hospital'') None]"

definition demo_timeline :: "timeline_entry list" where
  "demo_timeline =
     [\<lparr>tl_status = ''emergency_requested'', tl_notes = ''Emergency requested by Pia''\<rparr>,
      \<lparr>tl_status = ''ambulance_assigned'', tl_notes = ''Ambulance MH-01 assigned by Asha''\<rparr>,
      \<lparr>tl_status = ''ambulance_en_route'', tl_notes = []\<rparr>,
      \<lparr>tl_status = ''ambulance_arrived_at_patient'', tl_notes = []\<rparr>,
      \<lparr>tl_status = ''patient_picked_up'', tl_notes = []\<rparr>,
      \<lparr>tl_status = ''arrived_at_hospital'', tl_notes = []\<rparr>]"

definition demo_store :: "emergency \<Rightarrow> ambulance_doc \<Rightarrow> hospital_doc \<Rightarrow> db" where
  "demo_store e a h =
     \<lparr>users = demo_users, emergencies = [1 \<mapsto> e], ambulances = [1 \<mapsto> a],
      hospitals = [1 \<mapsto> h], payments = [1 \<mapsto> demo_payment]\<rparr>"

definition demo_emergency_at :: "emergency_status \<Rightarrow> timeline_entry list \<Rightarrow> emergency" where
  "demo_emergency_at st entries =
     \<lparr>patient = 3, requestedBy = 3, status = st, ambulance = Some 1, hospital = Some 1,
      route = None, timeline = entries, feedback = None\<rparr>"

definition demo_busy_ambulance :: ambulance_doc where
  "demo_busy_ambulance =
     \<lparr>registrationNumber = ''MH-01'', driver = Some 2, amb_status = Busy,
      activeEmergency = Some 1\<rparr>"

definition demo_after_assign :: db where
  "demo_after_assign =
     demo_store (demo_emergency_at Assigned (take 2 demo_timeline)) demo_busy_ambulance
       (demo_hospital\<lparr>capacity_available := 0\<rparr>)"

definition demo_at_hospital :: db where
  "demo_at_hospital =
     demo_store (demo_emergency_at ArrivedAtHospital demo_timeline) demo_busy_ambulance
       (demo_hospital\<lparr>capacity_available := 0\<rparr>)"

text \<open>The store after the driver has also reported the completion.\<close>

definition demo_completed :: db where
  "demo_completed =
     demo_store
       (demo_emergency_at Completed
          (demo_timeline @ [\<lparr>tl_status = ''emergency_completed'', tl_notes = []\<rparr>]))
       (demo_ambulance Available) demo_hospital"

text \<open>
  The values of the language's and the library's conversions on the strings of the
  examples below.
\<close>

definition demo_StringToNumber :: "string \<Rightarrow> jsnum" where
  "demo_StringToNumber s =
     (if s = ''3'' then Fin 3
      else if s = ''100'' then Fin 100
      else if s = ''2.53'' then Fin (253 / 100)
      else NaN)"

definition demo_NumberToString :: "rat \<Rightarrow> string" where
  "demo_NumberToString n = (if n = 5 / 2 then ''2.5'' else ''0'')"

definition demo_castObjectId :: "string \<Rightarrow> oid option" where
  "demo_castObjectId s = (if s = ''000000000000000000000001'' then Some 1 else None)"

text \<open>The store after the completion, with a hospital that has one rating of 2.5.\<close>

definition demo_rated :: db where
  "demo_rated =
     demo_store
       (demo_emergency_at Completed
          (demo_timeline @ [\<lparr>tl_status = ''emergency_completed'', tl_notes = []\<rparr>]))
       (demo_ambulance Available)
       (demo_hospital\<lparr>rating_average := 5 / 2, rating_count := 1\<rparr>)"

section \<open>Facts about the handlers\<close>

text \<open>
  What a failing and what a succeeding call of each handler looks like, the effect of
  the writes on single documents, and the stores the journey reaches.
\<close>

lemma status_of_string_name [simp]: "status_of_string (status_name st) = Some st"
  by (cases st) (simp_all add: status_of_string_def validStatuses_def)

lemma status_name_nonempty [simp]: "status_name st \<noteq> []"
  by (cases st) simp_all

lemma assign_failure_unchanged:
  "fst (assign d uid eid ambulanceId hospitalId routeResult) = Inl err
   \<Longrightarrow> snd (assign d uid eid ambulanceId hospitalId routeResult) = d"
  unfolding assign_def assign_save_def
  by (auto split: option.split_asm if_split_asm)

lemma assign_success:
  assumes ok: "fst (assign d uid eid ambulanceId hospitalId routeResult) = Inr resp"
  shows "\<exists>u aid e a.
      users d uid = Some u \<and> ambulanceId = Some aid \<and> emergencies d eid = Some e \<and>
      (user_role u = Admin \<or> isHospitalAdmin d uid u hospitalId) \<and>
      ambulances d aid = Some a \<and> amb_status a = Available \<and>
      populated_driver d a \<noteq> None \<and>
      (case hospitalId of None \<Rightarrow> True
       | Some hid \<Rightarrow> (\<exists>h. hospitals d hid = Some h \<and> 0 < capacity_available h)) \<and>
      routeResult = None \<and>
      snd (assign d uid eid ambulanceId hospitalId routeResult)
        = assign_writes d u eid e aid a hospitalId"
proof -
  from ok obtain u where u: "users d uid = Some u"
    by (cases "users d uid") (simp_all add: assign_def)
  from ok u obtain aid where aid: "ambulanceId = Some aid"
    by (cases ambulanceId) (simp_all add: assign_def)
  from ok u aid obtain e where e: "emergencies d eid = Some e"
    by (cases "emergencies d eid") (simp_all add: assign_def)
  from ok u aid e have au: "user_role u = Admin \<or> isHospitalAdmin d uid u hospitalId"
    by (cases "user_role u = Admin"; cases "isHospitalAdmin d uid u hospitalId")
      (simp_all add: assign_def)
  from ok u aid e au obtain a where a: "ambulances d aid = Some a"
    by (cases "ambulances d aid") (auto simp: assign_def)
  from ok u aid e au a have av: "amb_status a = Available"
    by (cases "amb_status a = Available") (auto simp: assign_def)
  from ok u aid e au a av have dr: "populated_driver d a \<noteq> None"
    by (cases "populated_driver d a") (auto simp: assign_def)
  have hosp: "case hospitalId of None \<Rightarrow> True
       | Some hid \<Rightarrow> (\<exists>h. hospitals d hid = Some h \<and> 0 < capacity_available h)"
  proof (cases hospitalId)
    case None
    then show ?thesis by simp
  next
    case (Some hid)
    from ok u aid e au a av dr Some obtain h where h: "hospitals d hid = Some h"
      by (cases "hospitals d hid") (auto simp: assign_def)
    from ok u aid e au a av dr Some h have "0 < capacity_available h"
      by (cases "capacity_available h \<le> 0") (auto simp: assign_def)
    with Some h show ?thesis by simp
  qed
  from u aid e au a av dr hosp
  have sv: "assign d uid eid ambulanceId hospitalId routeResult
        = assign_save d u eid e aid a hospitalId routeResult"
    by (auto simp: assign_def split: option.splits)
  from ok have rr: "routeResult = None"
    unfolding sv by (cases routeResult) (simp_all add: assign_save_def)
  from sv rr
  have "snd (assign d uid eid ambulanceId hospitalId routeResult)
        = assign_writes d u eid e aid a hospitalId"
    by (simp add: assign_save_def)
  with u aid e au a av dr hosp rr show ?thesis by blast
qed

lemma assign_possible:
  assumes "users d uid = Some u" "emergencies d eid = Some e"
    "user_role u = Admin \<or> isHospitalAdmin d uid u hospitalId"
    "ambulances d aid = Some a" "amb_status a = Available" "populated_driver d a \<noteq> None"
    "case hospitalId of None \<Rightarrow> True
       | Some hid \<Rightarrow> (\<exists>h. hospitals d hid = Some h \<and> 0 < capacity_available h)"
  shows "\<exists>resp. fst (assign d uid eid (Some aid) hospitalId None) = Inr resp"
  using assms
  by (auto simp: assign_def assign_save_def split: option.splits)

lemma assign_route_rejected:
  "\<exists>err. fst (assign d uid eid ambulanceId hospitalId (Some r)) = Inl err"
proof (cases "fst (assign d uid eid ambulanceId hospitalId (Some r))")
  case (Inl err)
  then show ?thesis by blast
next
  case (Inr resp)
  from assign_success [OF Inr] show ?thesis by simp
qed



lemma update_status_failure_unchanged:
  "fst (update_status d uid eid status_req notes) = Inl err
   \<Longrightarrow> snd (update_status d uid eid status_req notes) = d"
  unfolding update_status_def
  by (simp split: option.splits if_splits)

lemma update_status_success:
  assumes ok: "fst (update_status d uid eid status_req notes) = Inr resp"
  shows "\<exists>u s st e p.
           users d uid = Some u \<and> status_req = Some s \<and> status_of_string s = Some st \<and>
           emergencies d eid = Some e \<and> users d (patient e) = Some p \<and>
           status_authorization d uid u e st = None \<and> status_validation e st = None \<and>
           snd (update_status d uid eid status_req notes) = status_writes d eid e st notes"
proof -
  from ok obtain u where u: "users d uid = Some u"
    by (cases "users d uid") (simp_all add: update_status_def)
  from ok u obtain s where s: "status_req = Some s"
    by (cases status_req) (simp_all add: update_status_def)
  from ok u s have ne: "s \<noteq> []"
    by (cases "s = []") (simp_all add: update_status_def)
  from ok u s ne obtain st where st: "status_of_string s = Some st"
    by (cases "status_of_string s") (simp_all add: update_status_def)
  from ok u s ne st obtain e where e: "emergencies d eid = Some e"
    by (cases "emergencies d eid") (simp_all add: update_status_def)
  from ok u s ne st e obtain p where p: "users d (patient e) = Some p"
    by (cases "users d (patient e)") (simp_all add: update_status_def)
  from ok u s ne st e p have az: "status_authorization d uid u e st = None"
    by (cases "status_authorization d uid u e st") (simp_all add: update_status_def)
  from ok u s ne st e p az have va: "status_validation e st = None"
    by (cases "status_validation e st") (simp_all add: update_status_def)
  from u s ne st e p az va
  have "snd (update_status d uid eid status_req notes) = status_writes d eid e st notes"
    by (simp add: update_status_def)
  with u s st e p az va show ?thesis by blast
qed

lemma update_status_checked:
  assumes "users d uid = Some u" "emergencies d eid = Some e" "users d (patient e) = Some p"
  shows "update_status d uid eid (Some (status_name st)) notes =
     (case status_authorization d uid u e st of
        Some err \<Rightarrow> (Inl err, d)
      | None \<Rightarrow>
          (case status_validation e st of
             Some err \<Rightarrow> (Inl err, d)
           | None \<Rightarrow>
               (Inr \<lparr>sr_status = st, sr_timeline = timeline (updateStatus e st notes)\<rparr>,
                status_writes d eid e st notes)))"
  using assms by (simp add: update_status_def)

lemma status_writes_emergency:
  "emergencies (status_writes d eid e st notes) eid = Some (updateStatus e st notes)"
  by (simp add: status_writes_def Let_def free_ambulance_def restore_capacity_def
      split: option.splits)

lemma status_validation_table:
  "st \<noteq> Pending \<Longrightarrow> st \<noteq> Assigned \<Longrightarrow> st \<noteq> Cancelled \<Longrightarrow>
   (status_validation e st = None) = spec_transition (status e) st"
  by (cases st) (auto simp: status_validation_def)

lemma status_validation_errors:
  "status_validation e st = Some err \<Longrightarrow> err \<in> set invalid_transition_errors"
  by (auto simp: status_validation_def invalid_transition_errors_def split: if_splits)

lemma status_validation_cancel [simp]: "status_validation e Cancelled = None"
  by (simp add: status_validation_def)

lemma status_authorization_cancel:
  "status_authorization d uid u e Cancelled = None \<Longrightarrow> status e \<noteq> Completed"
  by (auto simp: status_authorization_def Let_def split: if_splits)

lemma status_authorization_cancel_completed:
  "status e = Completed \<Longrightarrow>
   user_role u = Admin \<or> patient e = uid \<or> requestedBy e = uid \<Longrightarrow>
   status_authorization d uid u e Cancelled
     = Some (HttpError 400 ''Cannot cancel a completed emergency'')"
  by (auto simp: status_authorization_def Let_def)

lemma status_authorization_driving:
  "st \<noteq> Cancelled \<Longrightarrow> user_role u = Admin \<or> isDriver d uid e \<Longrightarrow>
   status_authorization d uid u e st = None"
  by (auto simp: status_authorization_def Let_def)

lemmas demo_defs =
  demo_db_def demo_users_def demo_emergency_def demo_ambulance_def demo_hospital_def
  demo_payment_def demo_store_def demo_emergency_at_def demo_busy_ambulance_def
  demo_timeline_def demo_after_assign_def demo_at_hospital_def demo_journey_def
  demo_completed_def demo_rated_def

lemmas handler_defs =
  assign_def assign_save_def assign_writes_def isHospitalAdmin_def populated_driver_def
  update_status_def status_of_string_def validStatuses_def
  status_authorization_def status_validation_def status_writes_def updateStatus_def
  isDriver_def free_ambulance_def restore_capacity_def

lemma demo_assign_reaches:
  "assign (demo_db Pending Available) 1 1 (Some 1) (Some 1) None =
     (Inr \<lparr>ar_status = Assigned, ar_route = None, ar_ambulance = 1, ar_hospital = Some 1\<rparr>,
      demo_after_assign)"
  by (simp add: handler_defs demo_defs)


lemma status_writes_ambulance:
  "ambulance e = Some aid \<Longrightarrow> ambulances d aid = Some a \<Longrightarrow>
   st = Completed \<or> st = Cancelled \<Longrightarrow>
   ambulances (status_writes d eid e st notes) aid
     = Some (a\<lparr>amb_status := Available, activeEmergency := None\<rparr>)"
  by (auto simp: status_writes_def Let_def free_ambulance_def restore_capacity_def
      updateStatus_def split: option.splits)

lemma status_writes_hospitals_other:
  "st \<noteq> Completed \<Longrightarrow> hospitals (status_writes d eid e st notes) = hospitals d"
  by (auto simp: status_writes_def Let_def free_ambulance_def split: option.splits)

lemma status_writes_hospital_completed:
  "hospital e = Some hid \<Longrightarrow> hospitals d hid = Some h \<Longrightarrow>
   hospitals (status_writes d eid e Completed notes) hid
     = Some (h\<lparr>capacity_available := min (capacity_total h) (capacity_available h + 1)\<rparr>)"
  by (auto simp: status_writes_def Let_def free_ambulance_def restore_capacity_def
      updateStatus_def split: option.splits)

lemma status_writes_hospital_shape:
  "hospitals d hid = Some h \<Longrightarrow>
   hospitals (status_writes d eid e st notes) hid = Some h \<or>
   hospitals (status_writes d eid e st notes) hid
     = Some (h\<lparr>capacity_available := min (capacity_total h) (capacity_available h + 1)\<rparr>)"
  by (auto simp: status_writes_def Let_def free_ambulance_def restore_capacity_def
      updateStatus_def split: option.splits)

lemma assign_writes_hospital:
  "hospitals d hid = Some h \<Longrightarrow>
   hospitals (assign_writes d u eid e aid a hospitalId) hid
     = Some (if hospitalId = Some hid
             then h\<lparr>capacity_available := max 0 (capacity_available h - 1)\<rparr> else h)"
  by (auto simp: assign_writes_def Let_def split: option.splits)

lemma assign_hospital_shape:
  assumes h: "hospitals d hid = Some h"
  shows "hospitals (snd (assign d uid eid ambulanceId hospitalId routeResult)) hid = Some h \<or>
     hospitals (snd (assign d uid eid ambulanceId hospitalId routeResult)) hid
       = Some (h\<lparr>capacity_available := max 0 (capacity_available h - 1)\<rparr>)"
proof (cases "fst (assign d uid eid ambulanceId hospitalId routeResult)")
  case (Inl err)
  from assign_failure_unchanged [OF Inl] h show ?thesis by simp
next
  case (Inr resp)
  from assign_success [OF Inr] obtain u aid e a where
    "snd (assign d uid eid ambulanceId hospitalId routeResult)
       = assign_writes d u eid e aid a hospitalId"
    by blast
  with assign_writes_hospital [OF h, of u eid e aid a hospitalId]
  show ?thesis by (cases "hospitalId = Some hid") simp_all
qed

lemma update_status_hospital_shape:
  assumes h: "hospitals d hid = Some h"
  shows "hospitals (snd (update_status d uid eid status_req notes)) hid = Some h \<or>
     hospitals (snd (update_status d uid eid status_req notes)) hid
       = Some (h\<lparr>capacity_available := min (capacity_total h) (capacity_available h + 1)\<rparr>)"
proof (cases "fst (update_status d uid eid status_req notes)")
  case (Inl err)
  from update_status_failure_unchanged [OF Inl] h show ?thesis by simp
next
  case (Inr resp)
  from update_status_success [OF Inr] obtain e st where
    "snd (update_status d uid eid status_req notes) = status_writes d eid e st notes"
    by blast
  with status_writes_hospital_shape [OF h, of eid e st "notes"] show ?thesis by simp
qed

lemma handle_capacity:
  assumes "hospitals d hid = Some h"
    and "0 \<le> capacity_available h" and "capacity_available h \<le> capacity_total h"
  shows "\<exists>h'. hospitals (handle d req) hid = Some h' \<and>
           0 \<le> capacity_available h' \<and> capacity_available h' \<le> capacity_total h' \<and>
           capacity_total h' = capacity_total h"
proof (cases req)
  case (AssignReq uid eid ambulanceId hospitalId routeResult)
  with assign_hospital_shape [OF assms(1), of uid eid ambulanceId hospitalId routeResult]
    assms(2,3)
  show ?thesis by auto
next
  case (StatusReq uid eid status_req n)
  with update_status_hospital_shape [OF assms(1), of uid eid status_req n] assms(2,3)
  show ?thesis by auto
qed

lemma demo_completion_reaches:
  "handle_all (demo_db Pending Available)
     (demo_journey @ [StatusReq 2 1 (Some ''completed'') None]) = demo_completed"
  by (simp add: handle_all_def handler_defs demo_defs)

lemma slice0_nonneg: "0 \<le> n \<Longrightarrow> slice0 xs n = take (nat n) xs"
  by (simp add: slice0_def)






lemma process_refund_failure_unchanged:
  "fst (process_refund StringToNumber d uid pid amount_req reason) = Inl err
   \<Longrightarrow> snd (process_refund StringToNumber d uid pid amount_req reason) = d"
  unfolding process_refund_def
  by (auto split: option.split_asm if_split_asm cast_result.split_asm)

lemma add_feedback_early_failure:
  assumes e: "emergencies d eid = Some e"
    and bad: "status e \<noteq> Completed \<or> (uid \<noteq> patient e \<and> uid \<noteq> requestedBy e)"
  shows "(\<exists>err. fst (add_feedback StringToNumber NumberToString d uid eid rating comment)
                  = Inl err) \<and>
         snd (add_feedback StringToNumber NumberToString d uid eid rating comment) = d"
  using assms
  by (auto simp: add_feedback_def split: option.splits)

section \<open>The status handler and the transition table\<close>

text \<open>
  Claim C1 says that the status update moves the status along the rows of the
  transition table only and rejects every other request. The handler checks the current
  status for five requested statuses and for \<open>cancelled\<close>, and has no check, of the
  caller or of the current status, for the requested statuses \<open>pending\<close> and
  \<open>assigned\<close>. Run on a completed emergency, the request for \<open>pending\<close> of a user who
  is neither admin, patient, requester nor driver succeeds and the emergency is pending
  again; run on a transporting emergency, the request for \<open>assigned\<close> succeeds alike.
  Neither pair is a row of the table.
\<close>

theorem update_status_unguarded_requests:
  "status (demo_emergency Completed) = Completed
   \<and> emergencies (demo_db Completed Busy) 1 = Some (demo_emergency Completed)
   \<and> update_status (demo_db Completed Busy) 2 1 (Some ''pending'') None
       = (Inr \<lparr>sr_status = Pending,
               sr_timeline = timeline (demo_emergency Completed) @
                 [\<lparr>tl_status = ''emergency_requested'', tl_notes = []\<rparr>]\<rparr>,
          (demo_db Completed Busy)
            \<lparr>emergencies := [1 \<mapsto> updateStatus (demo_emergency Completed) Pending None]\<rparr>)
   \<and> status (updateStatus (demo_emergency Completed) Pending None) = Pending
   \<and> update_status (demo_db Transporting Busy) 2 1 (Some ''assigned'') None
       = (Inr \<lparr>sr_status = Assigned,
               sr_timeline = timeline (demo_emergency Transporting) @
                 [\<lparr>tl_status = ''ambulance_assigned'', tl_notes = []\<rparr>]\<rparr>,
          (demo_db Transporting Busy)
            \<lparr>emergencies := [1 \<mapsto> updateStatus (demo_emergency Transporting) Assigned None]\<rparr>)
   \<and> status (updateStatus (demo_emergency Transporting) Assigned None) = Assigned
   \<and> spec_transition Completed Pending = False
   \<and> spec_transition Transporting Assigned = False"
  by (simp add: handler_defs demo_defs)

text \<open>
  The same for every store: a request for \<open>pending\<close> or \<open>assigned\<close> of a known caller
  on an emergency whose patient is in the store succeeds from every status.
\<close>

lemma update_status_unguarded_always:
  assumes "users d uid = Some u" and "emergencies d eid = Some e"
    and "users d (patient e) = Some p" and "st = Pending \<or> st = Assigned"
  shows "update_status d uid eid (Some (status_name st)) notes
     = (Inr \<lparr>sr_status = st, sr_timeline = timeline (updateStatus e st notes)\<rparr>,
        d\<lparr>emergencies := (emergencies d)(eid \<mapsto> updateStatus e st notes)\<rparr>)"
  using assms(4) update_status_checked [OF assms(1,2,3), of st "notes"]
  by (auto simp: status_authorization_def status_validation_def status_writes_def Let_def)

text \<open>
  The six requested statuses that the handler does check: for every emergency and every
  requested status other than \<open>pending\<close> and \<open>assigned\<close>, a successful update follows
  a row of the table and sets the requested status; every failing update leaves the
  store as it was; a request off the table fails and leaves the emergency unchanged; and
  when the caller and the patient are in the store and the caller passes the
  authorization check (an admin, or the driver, or for a cancellation the patient or the
  requester), the failure is one of the transition errors.
\<close>

lemma update_status_guarded_requests:
  assumes e: "emergencies d eid = Some e" and st: "st \<noteq> Pending" "st \<noteq> Assigned"
  shows
    "(\<forall>resp. fst (update_status d uid eid (Some (status_name st)) notes) = Inr resp \<longrightarrow>
        spec_transition (status e) st \<and>
        map_option status
          (emergencies (snd (update_status d uid eid (Some (status_name st)) notes)) eid)
          = Some st)
     \<and> (\<forall>err. fst (update_status d uid eid (Some (status_name st)) notes) = Inl err \<longrightarrow>
          snd (update_status d uid eid (Some (status_name st)) notes) = d)
     \<and> (\<not> spec_transition (status e) st \<longrightarrow>
          (\<exists>err. fst (update_status d uid eid (Some (status_name st)) notes) = Inl err) \<and>
          emergencies (snd (update_status d uid eid (Some (status_name st)) notes)) eid
            = Some e)
     \<and> (\<not> spec_transition (status e) st \<and>
        (\<exists>u p. users d uid = Some u \<and> users d (patient e) = Some p \<and>
               (user_role u = Admin \<or>
                (if st = Cancelled then patient e = uid \<or> requestedBy e = uid
                 else isDriver d uid e))) \<longrightarrow>
          (\<exists>err \<in> set invalid_transition_errors.
              fst (update_status d uid eid (Some (status_name st)) notes) = Inl err))"
    (is "?A \<and> ?B \<and> ?C \<and> ?D")
proof -
  let ?U = "update_status d uid eid (Some (status_name st)) notes"
  have succ: "spec_transition (status e) st \<and>
      map_option status (emergencies (snd ?U) eid) = Some st" if ok: "fst ?U = Inr resp" for resp
  proof -
    from update_status_success [OF ok] e obtain u where
      az: "status_authorization d uid u e st = None" and
      va: "status_validation e st = None" and
      w: "snd ?U = status_writes d eid e st notes"
      by auto
    have "spec_transition (status e) st"
    proof (cases "st = Cancelled")
      case True
      with az show ?thesis by (auto dest: status_authorization_cancel)
    next
      case False
      with va st show ?thesis by (simp add: status_validation_table)
    qed
    moreover have "map_option status (emergencies (snd ?U) eid) = Some st"
      by (simp add: w status_writes_emergency updateStatus_def)
    ultimately show ?thesis by simp
  qed
  then have A: ?A by blast
  have B: ?B by (blast intro: update_status_failure_unchanged)
  have fails: "\<exists>err. fst ?U = Inl err" if "\<not> spec_transition (status e) st"
  proof (cases "fst ?U")
    case (Inl err)
    then show ?thesis by blast
  next
    case (Inr resp)
    with succ that show ?thesis by blast
  qed
  have C: ?C
  proof
    assume off: "\<not> spec_transition (status e) st"
    from fails [OF off] obtain err where err: "fst ?U = Inl err" ..
    from update_status_failure_unchanged [OF err] e err
    show "(\<exists>err. fst ?U = Inl err) \<and> emergencies (snd ?U) eid = Some e" by auto
  qed
  have D: ?D
  proof
    assume h: "\<not> spec_transition (status e) st \<and>
        (\<exists>u p. users d uid = Some u \<and> users d (patient e) = Some p \<and>
               (user_role u = Admin \<or>
                (if st = Cancelled then patient e = uid \<or> requestedBy e = uid
                 else isDriver d uid e)))"
    then obtain u p where off: "\<not> spec_transition (status e) st"
      and u: "users d uid = Some u" and p: "users d (patient e) = Some p"
      and au: "user_role u = Admin \<or>
                (if st = Cancelled then patient e = uid \<or> requestedBy e = uid
                 else isDriver d uid e)"
      by blast
    note eq = update_status_checked [OF u e p, of st "notes"]
    show "\<exists>err \<in> set invalid_transition_errors. fst ?U = Inl err"
    proof (cases "st = Cancelled")
      case True
      with off have "status e = Completed" by simp
      moreover from au True
      have "user_role u = Admin \<or> patient e = uid \<or> requestedBy e = uid" by auto
      ultimately have "status_authorization d uid u e Cancelled
          = Some (HttpError 400 ''Cannot cancel a completed emergency'')"
        by (rule status_authorization_cancel_completed)
      with eq True show ?thesis by (simp add: invalid_transition_errors_def)
    next
      case False
      with au have "user_role u = Admin \<or> isDriver d uid e" by auto
      with False have az: "status_authorization d uid u e st = None"
        by (rule status_authorization_driving)
      from off False st obtain err where va: "status_validation e st = Some err"
        by (cases "status_validation e st") (auto simp: status_validation_table)
      from va have "err \<in> set invalid_transition_errors" by (rule status_validation_errors)
      with eq az va show ?thesis by auto
    qed
  qed
  from A B C D show ?thesis by blast
qed

section \<open>The assign handler\<close>

text \<open>
  Claim C2 says that assign succeeds on a pending emergency only. The handler never
  reads the emergency's status: run by the admin on a completed emergency, with an
  available ambulance that has a driver, a hospital with capacity and a route
  calculation that throws, it succeeds; the emergency is \<open>assigned\<close> again, the
  ambulance busy, the hospital's last unit of capacity taken.
\<close>

theorem assign_completed_emergency:
  "status (demo_emergency Completed) = Completed
   \<and> emergencies (demo_db Completed Available) 1 = Some (demo_emergency Completed)
   \<and> fst (assign (demo_db Completed Available) 1 1 (Some 1) (Some 1) None)
       = Inr \<lparr>ar_status = Assigned, ar_route = None, ar_ambulance = 1, ar_hospital = Some 1\<rparr>
   \<and> map_option status
       (emergencies (snd (assign (demo_db Completed Available) 1 1 (Some 1) (Some 1) None)) 1)
       = Some Assigned
   \<and> map_option amb_status
       (ambulances (snd (assign (demo_db Completed Available) 1 1 (Some 1) (Some 1) None)) 1)
       = Some Busy
   \<and> map_option capacity_available
       (hospitals (snd (assign (demo_db Completed Available) 1 1 (Some 1) (Some 1) None)) 1)
       = Some 0"
  by (simp add: handler_defs demo_defs)

text \<open>
  Claim C3: for every assign call whose ambulance exists but is not available, or has no
  driver, the call fails before any write, the store (emergency, ambulance, hospital and
  its capacity) exactly as before. The failure is the conflict response (400,
  ``Ambulance is not available'' or ``Ambulance has no assigned driver'') whenever the
  caller is known, the emergency exists and the caller may assign. The checks that come
  first answer otherwise, as the specification prescribes for them: 401 for an unknown
  caller, 404 for a missing emergency, 403 for a caller who may not assign.
\<close>

theorem assign_unavailable_ambulance_fails:
  assumes "ambulances d aid = Some a"
    and "amb_status a \<noteq> Available \<or> populated_driver d a = None"
  shows "(\<exists>err. fst (assign d uid eid (Some aid) hospitalId routeResult) = Inl err)
     \<and> snd (assign d uid eid (Some aid) hospitalId routeResult) = d
     \<and> ((\<exists>u e. users d uid = Some u \<and> emergencies d eid = Some e \<and>
               (user_role u = Admin \<or> isHospitalAdmin d uid u hospitalId))
          \<longrightarrow> fst (assign d uid eid (Some aid) hospitalId routeResult)
                = Inl (HttpError 400
                    (if amb_status a \<noteq> Available then ''Ambulance is not available''
                     else ''Ambulance has no assigned driver'')))
     \<and> (users d uid = None
          \<longrightarrow> fst (assign d uid eid (Some aid) hospitalId routeResult)
                = Inl (HttpError 401 ''Not authorized, user not found''))
     \<and> ((\<exists>u. users d uid = Some u) \<and> emergencies d eid = None
          \<longrightarrow> fst (assign d uid eid (Some aid) hospitalId routeResult)
                = Inl (HttpError 404 ''Emergency not found''))
     \<and> ((\<exists>u e. users d uid = Some u \<and> emergencies d eid = Some e \<and>
               user_role u \<noteq> Admin \<and> \<not> isHospitalAdmin d uid u hospitalId)
          \<longrightarrow> fst (assign d uid eid (Some aid) hospitalId routeResult)
                = Inl (HttpError 403 ''Not authorized to assign ambulance''))"
  using assms
  by (auto simp: assign_def split: option.splits if_splits)

theorem assign_unavailable_ambulance_fails_witness:
  "ambulances (demo_db Pending Busy) 1 = Some (demo_ambulance Busy)
   \<and> amb_status (demo_ambulance Busy) \<noteq> Available
   \<and> users (demo_db Pending Busy) 1
       = Some \<lparr>user_name = ''Asha'', user_phone = ''100'', user_role = Admin\<rparr>
   \<and> emergencies (demo_db Pending Busy) 1 = Some (demo_emergency Pending)
   \<and> fst (assign (demo_db Pending Busy) 1 1 (Some 1) (Some 1) None)
       = Inl (HttpError 400 ''Ambulance is not available'')
   \<and> snd (assign (demo_db Pending Busy) 1 1 (Some 1) (Some 1) None) = demo_db Pending Busy
   \<and> users (demo_db Pending Busy) 3
       = Some \<lparr>user_name = ''Pia'', user_phone = ''300'', user_role = User\<rparr>
   \<and> fst (assign (demo_db Pending Busy) 3 1 (Some 1) None None)
       = Inl (HttpError 403 ''Not authorized to assign ambulance'')
   \<and> snd (assign (demo_db Pending Busy) 3 1 (Some 1) None None) = demo_db Pending Busy
   \<and> users (demo_db Pending Busy) 9 = None
   \<and> fst (assign (demo_db Pending Busy) 9 1 (Some 1) None None)
       = Inl (HttpError 401 ''Not authorized, user not found'')"
proof -
  have h1: "ambulances (demo_db Pending Busy) 1 = Some (demo_ambulance Busy)"
    by (simp add: demo_db_def)
  have h2: "amb_status (demo_ambulance Busy) \<noteq> Available"
    by (simp add: demo_ambulance_def)
  have h3: "users (demo_db Pending Busy) 1
       = Some \<lparr>user_name = ''Asha'', user_phone = ''100'', user_role = Admin\<rparr>"
    and h5: "users (demo_db Pending Busy) 3
       = Some \<lparr>user_name = ''Pia'', user_phone = ''300'', user_role = User\<rparr>"
    and h6: "users (demo_db Pending Busy) 9 = None"
    by (simp_all add: demo_db_def demo_users_def)
  have h4: "emergencies (demo_db Pending Busy) 1 = Some (demo_emergency Pending)"
    by (simp add: demo_db_def)
  have h7: "\<not> isHospitalAdmin (demo_db Pending Busy) 3
              \<lparr>user_name = ''Pia'', user_phone = ''300'', user_role = User\<rparr> None"
    by (simp add: isHospitalAdmin_def)
  from h2 have h2': "amb_status (demo_ambulance Busy) \<noteq> Available
      \<or> populated_driver (demo_db Pending Busy) (demo_ambulance Busy) = None"
    by simp
  from assign_unavailable_ambulance_fails [OF h1 h2', of 1 1 "Some 1" None] h2 h3 h4
  have a: "fst (assign (demo_db Pending Busy) 1 1 (Some 1) (Some 1) None)
       = Inl (HttpError 400 ''Ambulance is not available'')
   \<and> snd (assign (demo_db Pending Busy) 1 1 (Some 1) (Some 1) None) = demo_db Pending Busy"
    by simp
  from assign_unavailable_ambulance_fails [OF h1 h2', of 3 1 None None] h4 h5 h7
  have b: "fst (assign (demo_db Pending Busy) 3 1 (Some 1) None None)
       = Inl (HttpError 403 ''Not authorized to assign ambulance'')
   \<and> snd (assign (demo_db Pending Busy) 3 1 (Some 1) None None) = demo_db Pending Busy"
    by simp
  from assign_unavailable_ambulance_fails [OF h1 h2', of 9 1 None None] h6
  have c: "fst (assign (demo_db Pending Busy) 9 1 (Some 1) None None)
       = Inl (HttpError 401 ''Not authorized, user not found'')"
    by simp
  from h1 h2 h3 h4 h5 h6 a b c show ?thesis by simp
qed

section \<open>Refunds\<close>

text \<open>
  Claim C9 says that a successful refund of the whole amount leaves the payment
  \<open>refunded\<close>. The handler compares the amount of the body with the payment's amount
  by \<open>===\<close> after having checked it by \<open><=\<close> and \<open>>\<close>, which convert a string: run by the
  admin on a completed payment of 100 with the amount \<open>"100"\<close>, a string that the
  language reads as the number 100, the refund succeeds and holds the amount 100, and
  the payment stays \<open>completed\<close>, open to the next refund.
\<close>

theorem process_refund_string_amount:
  assumes "StringToNumber ''100'' = Fin 100"
  shows "amount demo_payment = 100
     \<and> pay_status demo_payment = PaymentCompleted
     \<and> process_refund StringToNumber (demo_db Pending Available) 1 1 (JStr ''100'') None
         = (Inr (demo_payment
                  \<lparr>refund := Some \<lparr>refund_amount = Some (Fin 100),
                                     refund_reason = ''Customer request'',
                                     refund_status = ''completed''\<rparr>\<rparr>),
            (demo_db Pending Available)
              \<lparr>payments := [1 \<mapsto> demo_payment
                  \<lparr>refund := Some \<lparr>refund_amount = Some (Fin 100),
                                     refund_reason = ''Customer request'',
                                     refund_status = ''completed''\<rparr>\<rparr>]\<rparr>)
     \<and> pay_status (demo_payment
                  \<lparr>refund := Some \<lparr>refund_amount = Some (Fin 100),
                                     refund_reason = ''Customer request'',
                                     refund_status = ''completed''\<rparr>\<rparr>) = PaymentCompleted"
  using assms
  by (simp add: process_refund_def refunded_def js_less_eq_def demo_defs)

theorem process_refund_string_amount_witness:
  "demo_StringToNumber ''100'' = Fin 100
   \<and> fst (process_refund demo_StringToNumber (demo_db Pending Available) 1 1 (JStr ''100'') None)
       = Inr (demo_payment
                  \<lparr>refund := Some \<lparr>refund_amount = Some (Fin 100),
                                     refund_reason = ''Customer request'',
                                     refund_status = ''completed''\<rparr>\<rparr>)
   \<and> map_option pay_status
        (payments (snd (process_refund demo_StringToNumber (demo_db Pending Available) 1 1
                          (JStr ''100'') None)) 1)
       = Some PaymentCompleted"
proof -
  have h: "demo_StringToNumber ''100'' = Fin 100" by (simp add: demo_StringToNumber_def)
  from process_refund_string_amount [of demo_StringToNumber, OF h] h show ?thesis by simp
qed

text \<open>
  With a number as amount the handler does what the claim says: it succeeds only on a
  completed payment and only for an amount above 0 and at most the payment's amount,
  it leaves the store unchanged when it fails, an admin's call with such a payment and
  amount succeeds, and the status becomes \<open>refunded\<close> exactly when the amount is the
  whole amount.
\<close>

lemma process_refund_number_amount:
  assumes "payments d pid = Some p"
  shows "(case fst (process_refund StringToNumber d uid pid (JNum a) reason) of
            Inl err \<Rightarrow> snd (process_refund StringToNumber d uid pid (JNum a) reason) = d
          | Inr p' \<Rightarrow>
              pay_status p = PaymentCompleted \<and> 0 < a \<and> a \<le> amount p \<and>
              payments (snd (process_refund StringToNumber d uid pid (JNum a) reason)) pid
                = Some p' \<and>
              (pay_status p' = PaymentRefunded \<longleftrightarrow> a = amount p) \<and>
              (a \<noteq> amount p \<longrightarrow> pay_status p' = PaymentCompleted))
       \<and> (\<not> (pay_status p = PaymentCompleted \<and> 0 < a \<and> a \<le> amount p)
            \<longrightarrow> (\<exists>err. fst (process_refund StringToNumber d uid pid (JNum a) reason) = Inl err))
       \<and> ((\<exists>u. users d uid = Some u \<and> user_role u = Admin) \<and>
           pay_status p = PaymentCompleted \<and> 0 < a \<and> a \<le> amount p
            \<longrightarrow> (\<exists>p'. fst (process_refund StringToNumber d uid pid (JNum a) reason) = Inr p'))"
  using assms
  by (auto simp: process_refund_def refunded_def js_less_eq_def split: option.splits)

section \<open>Hospital capacity\<close>

text \<open>
  Claim C5: for every hospital whose capacity starts with \<open>0 \<le> available \<le> total\<close>,
  the same holds after any finite sequence of assign and status-update requests,
  whatever their parameters and whether they succeed or fail; the hospital stays in
  the store and its total does not change.
\<close>

theorem capacity_invariant:
  assumes "hospitals d hid = Some h"
    and "0 \<le> capacity_available h" and "capacity_available h \<le> capacity_total h"
  shows "\<exists>h'. hospitals (handle_all d reqs) hid = Some h' \<and>
           0 \<le> capacity_available h' \<and> capacity_available h' \<le> capacity_total h' \<and>
           capacity_total h' = capacity_total h"
  using assms
proof (induction reqs arbitrary: d h)
  case Nil
  then show ?case by (simp add: handle_all_def)
next
  case (Cons req reqs)
  from handle_capacity [OF Cons.prems, of req] obtain h1 where
    h1: "hospitals (handle d req) hid = Some h1"
      "0 \<le> capacity_available h1" "capacity_available h1 \<le> capacity_total h1"
      "capacity_total h1 = capacity_total h"
    by blast
  from Cons.IH [OF h1(1,2,3)] h1(4) show ?case by (simp add: handle_all_def)
qed

theorem capacity_invariant_witness:
  "hospitals (demo_db Pending Available) 1 = Some demo_hospital
   \<and> 0 \<le> capacity_available demo_hospital
   \<and> capacity_available demo_hospital \<le> capacity_total demo_hospital
   \<and> map_option capacity_available
       (hospitals (handle_all (demo_db Pending Available)
          (demo_journey @ [StatusReq 2 1 (Some ''completed'') None])) 1) = Some 1
   \<and> (\<exists>h'. hospitals (handle_all (demo_db Pending Available)
               (demo_journey @ [StatusReq 2 1 (Some ''completed'') None])) 1 = Some h' \<and>
           0 \<le> capacity_available h' \<and> capacity_available h' \<le> capacity_total h' \<and>
           capacity_total h' = capacity_total demo_hospital)"
proof -
  have h1: "hospitals (demo_db Pending Available) 1 = Some demo_hospital"
    by (simp add: demo_db_def)
  have h2: "0 \<le> capacity_available demo_hospital"
    and h3: "capacity_available demo_hospital \<le> capacity_total demo_hospital"
    by (simp_all add: demo_hospital_def)
  have run: "map_option capacity_available
       (hospitals (handle_all (demo_db Pending Available)
          (demo_journey @ [StatusReq 2 1 (Some ''completed'') None])) 1) = Some 1"
    by (simp add: handle_all_def handler_defs demo_defs)
  from capacity_invariant [OF h1 h2 h3,
      of "demo_journey @ [StatusReq 2 1 (Some ''completed'') None]"] h1 h2 h3 run
  show ?thesis by blast
qed


section \<open>Completion and cancellation\<close>

text \<open>
  Claim C4: for every emergency with an assigned ambulance that is in the store, a
  successful status update to \<open>completed\<close> or to \<open>cancelled\<close> leaves that ambulance
  with status \<open>available\<close> and no active emergency; on \<open>completed\<close>, when the
  emergency names a hospital that is in the store, that hospital's available capacity
  becomes the smaller of its total and its old value plus 1, nothing else of the
  hospital changing.
\<close>

theorem completion_releases_ambulance:
  assumes "emergencies d eid = Some e" and "ambulance e = Some aid"
    and "ambulances d aid = Some a"
    and "st = Completed \<or> st = Cancelled"
    and "fst (update_status d uid eid (Some (status_name st)) notes) = Inr resp"
  shows "(\<exists>a'. ambulances (snd (update_status d uid eid (Some (status_name st)) notes)) aid
                 = Some a' \<and>
               amb_status a' = Available \<and> activeEmergency a' = None)
     \<and> (\<forall>hid h. st = Completed \<and> hospital e = Some hid \<and> hospitals d hid = Some h \<longrightarrow>
           hospitals (snd (update_status d uid eid (Some (status_name st)) notes)) hid
             = Some (h\<lparr>capacity_available :=
                         min (capacity_total h) (capacity_available h + 1)\<rparr>))"
proof -
  from update_status_success [OF assms(5)] assms(1)
  have w: "snd (update_status d uid eid (Some (status_name st)) notes)
             = status_writes d eid e st notes"
    by auto
  have "ambulances (status_writes d eid e st notes) aid
          = Some (a\<lparr>amb_status := Available, activeEmergency := None\<rparr>)"
    using assms(2,3,4) by (rule status_writes_ambulance)
  moreover have "hospitals (status_writes d eid e st notes) hid
             = Some (h\<lparr>capacity_available :=
                         min (capacity_total h) (capacity_available h + 1)\<rparr>)"
    if "st = Completed" "hospital e = Some hid" "hospitals d hid = Some h" for hid h
    using that by (simp add: status_writes_hospital_completed)
  ultimately show ?thesis unfolding w by simp
qed

theorem completion_releases_ambulance_witness:
  "emergencies demo_at_hospital 1 = Some (demo_emergency_at ArrivedAtHospital demo_timeline)
   \<and> ambulance (demo_emergency_at ArrivedAtHospital demo_timeline) = Some 1
   \<and> ambulances demo_at_hospital 1 = Some demo_busy_ambulance
   \<and> fst (update_status demo_at_hospital 2 1 (Some (status_name Completed)) None)
       = Inr \<lparr>sr_status = Completed,
              sr_timeline = demo_timeline @
                [\<lparr>tl_status = ''emergency_completed'', tl_notes = []\<rparr>]\<rparr>
   \<and> hospital (demo_emergency_at ArrivedAtHospital demo_timeline) = Some 1
   \<and> hospitals demo_at_hospital 1 = Some (demo_hospital\<lparr>capacity_available := 0\<rparr>)
   \<and> (\<exists>a'. ambulances
              (snd (update_status demo_at_hospital 2 1 (Some (status_name Completed)) None)) 1
              = Some a' \<and>
            amb_status a' = Available \<and> activeEmergency a' = None)
   \<and> hospitals (snd (update_status demo_at_hospital 2 1 (Some (status_name Completed)) None)) 1
       = Some (demo_hospital\<lparr>capacity_available := 1\<rparr>)"
proof -
  have h1: "emergencies demo_at_hospital 1
              = Some (demo_emergency_at ArrivedAtHospital demo_timeline)"
    and h2: "ambulance (demo_emergency_at ArrivedAtHospital demo_timeline) = Some 1"
    and h3: "ambulances demo_at_hospital 1 = Some demo_busy_ambulance"
    and h6: "hospital (demo_emergency_at ArrivedAtHospital demo_timeline) = Some 1"
    and h7: "hospitals demo_at_hospital 1 = Some (demo_hospital\<lparr>capacity_available := 0\<rparr>)"
    by (simp_all add: demo_at_hospital_def demo_store_def demo_emergency_at_def)
  have h4: "Completed = Completed \<or> Completed = Cancelled" by simp
  have h5: "fst (update_status demo_at_hospital 2 1 (Some (status_name Completed)) None)
       = Inr \<lparr>sr_status = Completed,
              sr_timeline = demo_timeline @
                [\<lparr>tl_status = ''emergency_completed'', tl_notes = []\<rparr>]\<rparr>"
    by (simp add: handler_defs demo_defs)
  have cap: "demo_hospital\<lparr>capacity_available := 0\<rparr>
      \<lparr>capacity_available :=
          min (capacity_total (demo_hospital\<lparr>capacity_available := 0\<rparr>))
              (capacity_available (demo_hospital\<lparr>capacity_available := 0\<rparr>) + 1)\<rparr>
      = demo_hospital\<lparr>capacity_available := 1\<rparr>"
    by (simp add: demo_hospital_def)
  from completion_releases_ambulance [OF h1 h2 h3 h4 h5] h6 h7 cap
  have k: "(\<exists>a'. ambulances
              (snd (update_status demo_at_hospital 2 1 (Some (status_name Completed)) None)) 1
              = Some a' \<and>
            amb_status a' = Available \<and> activeEmergency a' = None)
   \<and> hospitals (snd (update_status demo_at_hospital 2 1 (Some (status_name Completed)) None)) 1
       = Some (demo_hospital\<lparr>capacity_available := 1\<rparr>)"
    by metis
  from h1 h2 h3 h5 h6 h7 k show ?thesis by blast
qed




text \<open>
  Claim C10: for every emergency that names a hospital and an ambulance of the store,
  a successful update to \<open>cancelled\<close> releases the ambulance and leaves every hospital
  document as it was; in particular, when the store is the one a successful assign to
  that hospital has just left, the hospital's available capacity after the cancellation
  is still one less than before the assign.
\<close>

theorem cancel_keeps_hospital_capacity:
  assumes e: "emergencies d eid = Some e" and "hospital e = Some hid"
    and "hospitals d hid = Some h"
    and amb: "ambulance e = Some aid" "ambulances d aid = Some a"
    and ok: "fst (update_status d uid eid (Some ''cancelled'') notes) = Inr resp"
  shows "hospitals (snd (update_status d uid eid (Some ''cancelled'') notes)) = hospitals d
     \<and> (\<exists>a'. ambulances (snd (update_status d uid eid (Some ''cancelled'') notes)) aid
                 = Some a' \<and>
               amb_status a' = Available \<and> activeEmergency a' = None)
     \<and> (\<forall>d0 uid0 r0 h0 resp0.
           hospitals d0 hid = Some h0 \<and>
           fst (assign d0 uid0 eid (Some aid) (Some hid) r0) = Inr resp0 \<and>
           d = snd (assign d0 uid0 eid (Some aid) (Some hid) r0) \<longrightarrow>
           map_option capacity_available
             (hospitals (snd (update_status d uid eid (Some ''cancelled'') notes)) hid)
             = Some (capacity_available h0 - 1))"
proof -
  from update_status_success [OF ok] e obtain st where
    st: "status_of_string ''cancelled'' = Some st" and
    w: "snd (update_status d uid eid (Some ''cancelled'') notes)
           = status_writes d eid e st notes"
    by auto
  from st have st': "st = Cancelled"
    by (simp add: status_of_string_def validStatuses_def)
  have frame: "hospitals (snd (update_status d uid eid (Some ''cancelled'') notes)) = hospitals d"
    unfolding w st' by (simp add: status_writes_hospitals_other)
  have rel: "ambulances (snd (update_status d uid eid (Some ''cancelled'') notes)) aid
      = Some (a\<lparr>amb_status := Available, activeEmergency := None\<rparr>)"
    unfolding w st' using amb by (simp add: status_writes_ambulance)
  have used: "map_option capacity_available
             (hospitals (snd (update_status d uid eid (Some ''cancelled'') notes)) hid)
             = Some (capacity_available h0 - 1)"
    if h0: "hospitals d0 hid = Some h0"
      and asg: "fst (assign d0 uid0 eid (Some aid) (Some hid) r0) = Inr resp0"
      and d: "d = snd (assign d0 uid0 eid (Some aid) (Some hid) r0)"
    for d0 uid0 r0 h0 resp0
  proof -
    from assign_success [OF asg] h0 obtain u0 e0 a0 where
      pos: "0 < capacity_available h0" and
      w0: "snd (assign d0 uid0 eid (Some aid) (Some hid) r0)
           = assign_writes d0 u0 eid e0 aid a0 (Some hid)"
      by auto
    have "hospitals d hid = Some (h0\<lparr>capacity_available := max 0 (capacity_available h0 - 1)\<rparr>)"
      unfolding d w0 using assign_writes_hospital [OF h0, of u0 eid e0 aid a0 "Some hid"]
      by simp
    with pos show ?thesis unfolding frame by simp
  qed
  from frame rel used show ?thesis by simp
qed

theorem cancel_keeps_hospital_capacity_witness:
  "emergencies demo_after_assign 1 = Some (demo_emergency_at Assigned (take 2 demo_timeline))
   \<and> hospital (demo_emergency_at Assigned (take 2 demo_timeline)) = Some 1
   \<and> hospitals demo_after_assign 1 = Some (demo_hospital\<lparr>capacity_available := 0\<rparr>)
   \<and> ambulance (demo_emergency_at Assigned (take 2 demo_timeline)) = Some 1
   \<and> ambulances demo_after_assign 1 = Some demo_busy_ambulance
   \<and> fst (update_status demo_after_assign 3 1 (Some ''cancelled'') None)
       = Inr \<lparr>sr_status = Cancelled,
              sr_timeline = take 2 demo_timeline @
                [\<lparr>tl_status = ''emergency_cancelled'', tl_notes = []\<rparr>]\<rparr>
   \<and> hospitals (demo_db Pending Available) 1 = Some demo_hospital
   \<and> fst (assign (demo_db Pending Available) 1 1 (Some 1) (Some 1) None)
       = Inr \<lparr>ar_status = Assigned, ar_route = None, ar_ambulance = 1, ar_hospital = Some 1\<rparr>
   \<and> demo_after_assign = snd (assign (demo_db Pending Available) 1 1 (Some 1) (Some 1) None)
   \<and> hospitals (snd (update_status demo_after_assign 3 1 (Some ''cancelled'') None))
       = hospitals demo_after_assign
   \<and> (\<exists>a'. ambulances (snd (update_status demo_after_assign 3 1 (Some ''cancelled'') None)) 1
                 = Some a' \<and>
             amb_status a' = Available \<and> activeEmergency a' = None)
   \<and> map_option capacity_available
        (hospitals (snd (update_status demo_after_assign 3 1 (Some ''cancelled'') None)) 1)
       = Some (capacity_available demo_hospital - 1)
   \<and> capacity_available demo_hospital - 1 = 0"
proof -
  have h1: "emergencies demo_after_assign 1
              = Some (demo_emergency_at Assigned (take 2 demo_timeline))"
    and h2: "hospital (demo_emergency_at Assigned (take 2 demo_timeline)) = Some 1"
    and h3: "hospitals demo_after_assign 1 = Some (demo_hospital\<lparr>capacity_available := 0\<rparr>)"
    and h4: "ambulance (demo_emergency_at Assigned (take 2 demo_timeline)) = Some 1"
    and h5: "ambulances demo_after_assign 1 = Some demo_busy_ambulance"
    by (simp_all add: demo_after_assign_def demo_store_def demo_emergency_at_def)
  have h6: "fst (update_status demo_after_assign 3 1 (Some ''cancelled'') None)
       = Inr \<lparr>sr_status = Cancelled,
              sr_timeline = take 2 demo_timeline @
                [\<lparr>tl_status = ''emergency_cancelled'', tl_notes = []\<rparr>]\<rparr>"
    by (simp add: handler_defs demo_defs)
  have g1: "hospitals (demo_db Pending Available) 1 = Some demo_hospital"
    by (simp add: demo_db_def)
  have g2: "fst (assign (demo_db Pending Available) 1 1 (Some 1) (Some 1) None)
       = Inr \<lparr>ar_status = Assigned, ar_route = None, ar_ambulance = 1, ar_hospital = Some 1\<rparr>"
    and g3: "demo_after_assign
               = snd (assign (demo_db Pending Available) 1 1 (Some 1) (Some 1) None)"
    using demo_assign_reaches by simp_all
  have g4: "capacity_available demo_hospital - 1 = 0" by (simp add: demo_hospital_def)
  from cancel_keeps_hospital_capacity [OF h1 h2 h3 h4 h5 h6] g1 g2 g3
  have k: "hospitals (snd (update_status demo_after_assign 3 1 (Some ''cancelled'') None))
       = hospitals demo_after_assign
   \<and> (\<exists>a'. ambulances (snd (update_status demo_after_assign 3 1 (Some ''cancelled'') None)) 1
                 = Some a' \<and>
             amb_status a' = Available \<and> activeEmergency a' = None)
   \<and> map_option capacity_available
        (hospitals (snd (update_status demo_after_assign 3 1 (Some ''cancelled'') None)) 1)
       = Some (capacity_available demo_hospital - 1)"
    by blast
  from h1 h2 h3 h4 h5 h6 g1 g2 g3 g4 k show ?thesis by blast
qed

section \<open>Feedback\<close>

text \<open>
  Claim C7 says that a successful feedback gives the hospital the average
  \<open>(oldAvg * oldCount + rating) / (oldCount + 1)\<close>. The handler adds the rating of the
  body by \<open>+\<close>, which concatenates a string: run by the patient on a completed
  emergency whose hospital has the average 2.5 from one rating, with the rating \<open>"3"\<close>,
  a string that the language reads as the number 3, the feedback succeeds and stores
  the rating 3, the sum is the string \<open>"2.53"\<close>, and the hospital gets the average 1.265
  with the count 2, where the formula gives 2.75.
\<close>

theorem add_feedback_string_rating:
  assumes "StringToNumber ''3'' = Fin 3" and "NumberToString (5 / 2) = ''2.5''"
    and "StringToNumber ''2.53'' = Fin (253 / 100)"
  shows "hospitals demo_rated 1
           = Some (demo_hospital\<lparr>rating_average := 5 / 2, rating_count := 1\<rparr>)
     \<and> fst (add_feedback StringToNumber NumberToString demo_rated 3 1 (JStr ''3'') None)
         = Inr \<lparr>fb_rating = Some 3, fb_comment = None\<rparr>
     \<and> map_option feedback
          (emergencies (snd (add_feedback StringToNumber NumberToString demo_rated 3 1
                               (JStr ''3'') None)) 1)
         = Some (Some \<lparr>fb_rating = Some 3, fb_comment = None\<rparr>)
     \<and> hospitals (snd (add_feedback StringToNumber NumberToString demo_rated 3 1
                          (JStr ''3'') None)) 1
         = Some (demo_hospital\<lparr>rating_average := 253 / 200, rating_count := 2\<rparr>)
     \<and> (5 / 2 * 1 + 3) / (1 + 1) = (11 / 4 :: rat)
     \<and> (253 / 200 :: rat) < 11 / 4"
  using assms
  by (simp add: add_feedback_def feedback_hospital_def rating_to_store_def demo_defs)

theorem add_feedback_string_rating_witness:
  "demo_StringToNumber ''3'' = Fin 3 \<and> demo_NumberToString (5 / 2) = ''2.5''
   \<and> demo_StringToNumber ''2.53'' = Fin (253 / 100)
   \<and> fst (add_feedback demo_StringToNumber demo_NumberToString demo_rated 3 1 (JStr ''3'') None)
         = Inr \<lparr>fb_rating = Some 3, fb_comment = None\<rparr>
   \<and> hospitals (snd (add_feedback demo_StringToNumber demo_NumberToString demo_rated 3 1
                          (JStr ''3'') None)) 1
         = Some (demo_hospital\<lparr>rating_average := 253 / 200, rating_count := 2\<rparr>)"
proof -
  have h: "demo_StringToNumber ''3'' = Fin 3" "demo_NumberToString (5 / 2) = ''2.5''"
    "demo_StringToNumber ''2.53'' = Fin (253 / 100)"
    by (simp_all add: demo_StringToNumber_def demo_NumberToString_def)
  from add_feedback_string_rating [of demo_StringToNumber demo_NumberToString, OF h] h
  show ?thesis by simp
qed

text \<open>
  With a number as rating the handler does what the claim says: a call that succeeds
  has a rating between 1 and 5, on a completed emergency, by its patient or requester,
  and the hospital that the emergency names, when it is in the store, gets the average
  of the formula and the count \<open>oldCount + 1\<close>. The average is computed in exact
  rational arithmetic. That a call on an emergency that is not completed, or by another
  caller, fails and leaves the store unchanged is \<open>add_feedback_early_failure\<close>, for
  every value of the rating.
\<close>

lemma add_feedback_number_rating:
  assumes e: "emergencies d eid = Some e"
    and ok: "fst (add_feedback StringToNumber NumberToString d uid eid (JNum r) comment) = Inr fb"
  shows "1 \<le> r \<and> r \<le> 5 \<and> status e = Completed \<and> (uid = patient e \<or> uid = requestedBy e) \<and>
     (\<forall>hid h. hospital e = Some hid \<and> hospitals d hid = Some h \<longrightarrow>
        hospitals (snd (add_feedback StringToNumber NumberToString d uid eid (JNum r) comment)) hid
          = Some (h\<lparr>rating_average :=
                       (rating_average h * of_nat (rating_count h) + r)
                       / of_nat (rating_count h + 1),
                     rating_count := rating_count h + 1\<rparr>))"
proof -
  from ok obtain u where u: "users d uid = Some u"
    by (cases "users d uid") (simp_all add: add_feedback_def)
  from ok u have r: "1 \<le> r" "r \<le> 5"
    by (auto simp: add_feedback_def split: if_split_asm)
  then have stored: "rating_to_store (Some (Fin r)) = Some (Some r)"
    by (simp add: rating_to_store_def)
  from ok u r e have au: "uid = patient e \<or> uid = requestedBy e" and st: "status e = Completed"
    by (auto simp: add_feedback_def split: if_split_asm)
  let ?fb = "\<lparr>fb_rating = Some r, fb_comment = comment\<rparr>"
  let ?d1 = "d\<lparr>emergencies := (emergencies d)(eid \<mapsto> e\<lparr>feedback := Some ?fb\<rparr>)\<rparr>"
  from u r e au st stored
  have eq: "add_feedback StringToNumber NumberToString d uid eid (JNum r) comment
      = feedback_hospital StringToNumber NumberToString ?d1 e (JNum r) ?fb"
    by (auto simp: add_feedback_def)
  have "hospitals (snd (add_feedback StringToNumber NumberToString d uid eid (JNum r) comment)) hid
          = Some (h\<lparr>rating_average :=
                       (rating_average h * of_nat (rating_count h) + r)
                       / of_nat (rating_count h + 1),
                     rating_count := rating_count h + 1\<rparr>)"
    if hh: "hospital e = Some hid \<and> hospitals d hid = Some h" for hid h
    using ok hh unfolding eq
    by (auto simp: feedback_hospital_def split: if_split_asm)
  with r st au show ?thesis by blast
qed

section \<open>Nearby hospitals\<close>

text \<open>
  Claim C8 describes what the lookup of nearby hospitals returns. The router registers
  \<open>/:id\<close> before \<open>/nearby\<close>, so the request \<open>GET /api/hospitals/nearby\<close> is run by the
  handler of \<open>/:id\<close> with the id \<open>nearby\<close>, whatever the matcher of the literal route
  accepts; \<open>nearby\<close> is no ObjectId, \<open>findById\<close> throws, and the request is answered
  500, whatever its query and whatever the store and the provider hold. The handler of
  the lookup is never run.
\<close>

theorem nearby_request_served_by_id_route:
  assumes "castObjectId ''nearby'' = None"
  shows "first_route (hospitals_get_routes matches_nearby) ''nearby'' = Some GetHospitalById
     \<and> hospitals_router_get castObjectId toLowerCase matches_nearby list_answer d ''nearby''
           lat lng limit_req dbHospitals googleHospitals
         = Inl (HttpError 500 ''Cast to ObjectId failed'')"
  using assms
  by (simp add: hospitals_router_get_def hospitals_get_routes_def get_hospital_by_id_def)

theorem nearby_request_served_by_id_route_witness:
  "demo_castObjectId ''nearby'' = None
   \<and> first_route (hospitals_get_routes (\<lambda>seg. seg = ''nearby'')) ''nearby''
       = Some GetHospitalById
   \<and> hospitals_router_get demo_castObjectId (\<lambda>s. s) (\<lambda>seg. seg = ''nearby'')
        (Inr HospitalList) (demo_db Pending Available) ''nearby''
        (Some ''28.61'') (Some ''77.20'') (Some 5) [] (Inr [])
       = Inl (HttpError 500 ''Cast to ObjectId failed'')"
proof -
  have h: "demo_castObjectId ''nearby'' = None" by (simp add: demo_castObjectId_def)
  from nearby_request_served_by_id_route
    [of demo_castObjectId "\<lambda>seg. seg = ''nearby''" "\<lambda>s. s" "Inr HospitalList"
        "demo_db Pending Available" "Some ''28.61''" "Some ''77.20''" "Some 5" "[]" "Inr []",
     OF h] h
  show ?thesis by simp
qed

text \<open>
  The handler of the lookup itself, were it reached, does what the claim says: for a
  request with coordinates it returns only the internal results when the store yields
  at least the requested limit of them; otherwise it appends the provider's results
  whose lower-cased name differs from the lower-cased name of every internal result,
  cut to the places the limit leaves, so that every internal entry precedes every
  external one and the combined list has at most the limit of entries; and when the
  provider fails, it returns the internal results with the provider's message as error
  annotation.
\<close>

lemma nearby_handler_merge_policy:
  assumes coords: "lat = Some la" "la \<noteq> []" "lng = Some lo" "lo \<noteq> []"
    and limit: "limit = (case limit_req of None \<Rightarrow> 5 | Some n \<Rightarrow> n)"
  shows "(limit \<le> int (length dbHospitals) \<longrightarrow>
            nearby toLowerCase lat lng limit_req dbHospitals googleHospitals
              = Inr \<lparr>nr_source = ''database'', nr_count = length dbHospitals,
                     nr_data = map FromDatabase dbHospitals, nr_error = None\<rparr>)
     \<and> (int (length dbHospitals) < limit \<longrightarrow>
          (\<forall>gs. googleHospitals = Inr gs \<longrightarrow>
             (\<exists>ext.
                ext = take (nat (limit - int (length dbHospitals)))
                        (filter (\<lambda>g. \<forall>h \<in> set dbHospitals.
                                   toLowerCase (gp_name g) \<noteq> toLowerCase (nh_name h)) gs) \<and>
                nearby toLowerCase lat lng limit_req dbHospitals googleHospitals
                  = Inr \<lparr>nr_source = ''combined'',
                         nr_count = length dbHospitals + length ext,
                         nr_data = map FromDatabase dbHospitals @ map FromGoogle ext,
                         nr_error = None\<rparr> \<and>
                int (length (map FromDatabase dbHospitals @ map FromGoogle ext)) \<le> limit)))
     \<and> (int (length dbHospitals) < limit \<longrightarrow>
          (\<forall>msg. googleHospitals = Inl msg \<longrightarrow>
             nearby toLowerCase lat lng limit_req dbHospitals googleHospitals
               = Inr \<lparr>nr_source = ''database'', nr_count = length dbHospitals,
                      nr_data = map FromDatabase dbHospitals, nr_error = Some msg\<rparr>))"
    (is "?A \<and> ?B \<and> ?C")
proof -
  from limit have eq: "(case limit_req of None \<Rightarrow> 5 | Some n \<Rightarrow> n) = limit" by simp
  have A: ?A using coords by (simp add: nearby_def eq)
  have C: ?C using coords by (auto simp: nearby_def eq)
  have B: ?B
  proof (intro impI allI)
    fix gs
    assume less: "int (length dbHospitals) < limit" and gs: "googleHospitals = Inr gs"
    let ?keep = "\<lambda>g. \<forall>h \<in> set dbHospitals.
                   toLowerCase (gp_name g) \<noteq> toLowerCase (nh_name h)"
    let ?ext = "take (nat (limit - int (length dbHospitals))) (filter ?keep gs)"
    have keep: "(\<lambda>h. toLowerCase (gp_name h)
                    \<notin> set (map (\<lambda>h. toLowerCase (nh_name h)) dbHospitals)) = ?keep"
      by (auto simp: fun_eq_iff)
    from less have pos: "0 \<le> limit - int (length dbHospitals)" by simp
    have r: "nearby toLowerCase lat lng limit_req dbHospitals googleHospitals
                  = Inr \<lparr>nr_source = ''combined'',
                         nr_count = length dbHospitals + length ?ext,
                         nr_data = map FromDatabase dbHospitals @ map FromGoogle ?ext,
                         nr_error = None\<rparr>"
      using coords less gs
      by (simp add: nearby_def eq Let_def keep slice0_nonneg [OF pos] take_map
          del: set_map)
    have "length ?ext \<le> nat (limit - int (length dbHospitals))" by simp
    with less have "int (length (map FromDatabase dbHospitals @ map FromGoogle ?ext)) \<le> limit"
      by simp
    with r show "\<exists>ext.
                ext = take (nat (limit - int (length dbHospitals))) (filter ?keep gs) \<and>
                nearby toLowerCase lat lng limit_req dbHospitals googleHospitals
                  = Inr \<lparr>nr_source = ''combined'',
                         nr_count = length dbHospitals + length ext,
                         nr_data = map FromDatabase dbHospitals @ map FromGoogle ext,
                         nr_error = None\<rparr> \<and>
                int (length (map FromDatabase dbHospitals @ map FromGoogle ext)) \<le> limit"
      by blast
  qed
  from A B C show ?thesis by blast
qed

end
